theory Spec2Isabelle
  imports
    Complex_Main
    "HOL-Library.Log_Nat"
    "HOL-Library.Char_ord"
    "HOL-Library.List_Lexorder"
    "HOL-Library.Multiset"
begin

section \<open>Task store and task mutations (task-actions)\<close>

text \<open>
  A row of the \<open>tasks\<close> table. Nullable columns are options; timestamps and dates are the
  ISO strings the store returns; minutes are integers.
\<close>

record task =
  t_id :: string
  t_title :: string
  t_description :: "string option"
  t_status :: string
  t_priority :: "string option"
  t_due_date :: "string option"
  t_estimated_time_minutes :: "int option"
  t_assignee_id :: "string option"
  t_creator_id :: "string option"
  t_project_id :: "string option"
  t_created_at :: string
  t_updated_at :: string

text \<open>
  What a server action reads from its surroundings: the authenticated user
  (\<open>supabase.auth.getUser()\<close>, \<open>None\<close> when there is no session), the clock
  (\<open>new Date().toISOString()\<close>) and whether the store reports a failure for the write
  (\<open>error.message\<close>, opaque to the action).
\<close>

record env =
  auth_user :: "string option"
  clock :: string
  store_fault :: "string option"

text \<open>A server action returns \<open>{ error }\<close> (\<open>Inl\<close>) or \<open>{ data }\<close> (\<open>Inr\<close>).\<close>

type_synonym 'a result = "string + 'a"

text \<open>JavaScript truthiness of a \<open>string | null | undefined\<close> value.\<close>

fun truthy :: "string option \<Rightarrow> bool" where
  "truthy None = False"
| "truthy (Some s) = (s \<noteq> [])"

text \<open>\<open>s || null\<close> for a string.\<close>

definition or_null :: "string \<Rightarrow> string option" where
  "or_null s = (if s = [] then None else Some s)"

text \<open>\<open>.single()\<close>: the row when the query yields exactly one, else no data.\<close>

fun single :: "'a list \<Rightarrow> 'a option" where
  "single [x] = Some x"
| "single _ = None"

text \<open>\<open>.update(f).<filter>.select()\<close>: the new table and the rows that were updated.\<close>

definition db_update :: "('a \<Rightarrow> bool) \<Rightarrow> ('a \<Rightarrow> 'a) \<Rightarrow> 'a list \<Rightarrow> 'a list \<times> 'a list" where
  "db_update p f rows = (map (\<lambda>r. if p r then f r else r) rows, map f (filter p rows))"

definition updateTaskStatus ::
  "env \<Rightarrow> task list \<Rightarrow> string \<Rightarrow> string \<Rightarrow> task result \<times> task list" where
  "updateTaskStatus e db taskId status =
    (case auth_user e of
       None \<Rightarrow> (Inl ''Not authenticated'', db)
     | Some user \<Rightarrow>
        (case single (filter (\<lambda>t. t_id t = taskId) db) of
           None \<Rightarrow> (Inl ''Not authorized to update this task'', db)
         | Some task \<Rightarrow>
            if t_assignee_id task \<noteq> Some user \<and> t_creator_id task \<noteq> Some user
            then (Inl ''Not authorized to update this task'', db)
            else
              (case store_fault e of
                 Some msg \<Rightarrow> (Inl msg, db)
               | None \<Rightarrow>
                  (let (db', rows) =
                         db_update (\<lambda>t. t_id t = taskId)
                           (\<lambda>t. t\<lparr>t_status := status, t_updated_at := clock e\<rparr>) db
                   in case single rows of
                        None \<Rightarrow> (Inl ''JSON object requested, multiple (or no) rows returned'', db)
                      | Some d \<Rightarrow> (Inr d, db')))))"

definition updateTaskDescription ::
  "env \<Rightarrow> task list \<Rightarrow> string \<Rightarrow> string \<Rightarrow> task result \<times> task list" where
  "updateTaskDescription e db taskId description =
    (case auth_user e of
       None \<Rightarrow> (Inl ''Not authenticated'', db)
     | Some user \<Rightarrow>
        (case single (filter (\<lambda>t. t_id t = taskId) db) of
           None \<Rightarrow> (Inl ''Not authorized to update this task'', db)
         | Some task \<Rightarrow>
            if t_assignee_id task \<noteq> Some user \<and> t_creator_id task \<noteq> Some user
            then (Inl ''Not authorized to update this task'', db)
            else
              (case store_fault e of
                 Some msg \<Rightarrow> (Inl msg, db)
               | None \<Rightarrow>
                  (let (db', rows) =
                         db_update (\<lambda>t. t_id t = taskId)
                           (\<lambda>t. t\<lparr>t_description := or_null description,
                                  t_updated_at := clock e\<rparr>) db
                   in case single rows of
                        None \<Rightarrow> (Inl ''JSON object requested, multiple (or no) rows returned'', db)
                      | Some d \<Rightarrow> (Inr d, db')))))"

text \<open>
  The partial update of \<open>bulkUpdateTasks\<close>: \<open>{ status?: string; assignee_id?: string }\<close>,
  \<open>None\<close> for a key that is not supplied.
\<close>

record updates =
  u_status :: "string option"
  u_assignee_id :: "string option"

text \<open>
  \<open>updateData\<close>: always the timestamp; the status when it is truthy; the assignee when it
  is not \<open>undefined\<close>, an empty one stored as \<open>null\<close>.
\<close>

definition updateData :: "env \<Rightarrow> updates \<Rightarrow> task \<Rightarrow> task" where
  "updateData e u t =
    (let t1 = t\<lparr>t_updated_at := clock e\<rparr>;
         t2 = (if truthy (u_status u) then t1\<lparr>t_status := the (u_status u)\<rparr> else t1);
         t3 = (case u_assignee_id u of
                 None \<Rightarrow> t2
               | Some a \<Rightarrow> t2\<lparr>t_assignee_id := or_null a\<rparr>)
     in t3)"

definition bulkUpdateTasks ::
  "env \<Rightarrow> task list \<Rightarrow> string list \<Rightarrow> updates \<Rightarrow> task list result \<times> task list" where
  "bulkUpdateTasks e db taskIds u =
    (case auth_user e of
       None \<Rightarrow> (Inl ''Not authenticated'', db)
     | Some user \<Rightarrow>
        (case store_fault e of
           Some msg \<Rightarrow> (Inl msg, db)
         | None \<Rightarrow>
            (let (db', rows) = db_update (\<lambda>t. t_id t \<in> set taskIds) (updateData e u) db
             in (Inr rows, db'))))"

section \<open>Team membership (team-actions)\<close>

definition STUDIO_DIRECTION_TEAM_ID :: string where
  "STUDIO_DIRECTION_TEAM_ID = ''92e8f38d-5161-4d70-bbdd-772d23cc7373''"

text \<open>
  A row of the \<open>team_members\<close> table, keyed by team and user. Every query of the
  membership operations is restricted to the one team of the deployment.
\<close>

record team_member =
  m_team_id :: string
  m_user_id :: string
  m_role :: "string option"

definition team_rows :: "team_member list \<Rightarrow> team_member list" where
  "team_rows ms = filter (\<lambda>m. m_team_id m = STUDIO_DIRECTION_TEAM_ID) ms"

text \<open>\<open>adminCount\<close>: the exact count of the team's rows whose role is \<open>admin\<close>.\<close>

definition adminCount :: "team_member list \<Rightarrow> nat" where
  "adminCount ms = length (filter (\<lambda>m. m_role m = Some ''admin'') (team_rows ms))"

text \<open>The team's row of a user, read with \<open>.single()\<close>.\<close>

definition currentUserMember :: "team_member list \<Rightarrow> string \<Rightarrow> team_member option" where
  "currentUserMember ms user = single (filter (\<lambda>m. m_user_id m = user) (team_rows ms))"

text \<open>
  \<open>updateMemberRole\<close>: only an admin may act; the last-admin check is made when the actor
  demotes themself.
\<close>

definition updateMemberRole ::
  "env \<Rightarrow> team_member list \<Rightarrow> string \<Rightarrow> string \<Rightarrow> bool result \<times> team_member list" where
  "updateMemberRole e ms userId newRole =
    (case auth_user e of
       None \<Rightarrow> (Inl ''Not authenticated'', ms)
     | Some user \<Rightarrow>
        if map_option m_role (currentUserMember ms user) \<noteq> Some (Some ''admin'')
        then (Inl ''Only admins can change member roles'', ms)
        else if newRole = ''member'' \<and> userId = user \<and> adminCount ms \<le> 1
        then (Inl ''Cannot remove the last admin'', ms)
        else
          (case store_fault e of
             Some msg \<Rightarrow> (Inl msg, ms)
           | None \<Rightarrow>
              (Inr True,
               map (\<lambda>m. if m_team_id m = STUDIO_DIRECTION_TEAM_ID \<and> m_user_id m = userId
                         then m\<lparr>m_role := Some newRole\<rparr> else m) ms)))"

text \<open>
  \<open>removeMember\<close>: only an admin may act; nobody removes themself; the last-admin check is
  made when the member to remove is an admin.
\<close>

definition removeMember ::
  "env \<Rightarrow> team_member list \<Rightarrow> string \<Rightarrow> bool result \<times> team_member list" where
  "removeMember e ms userId =
    (case auth_user e of
       None \<Rightarrow> (Inl ''Not authenticated'', ms)
     | Some user \<Rightarrow>
        if map_option m_role (currentUserMember ms user) \<noteq> Some (Some ''admin'')
        then (Inl ''Only admins can remove members'', ms)
        else if userId = user
        then (Inl ''Cannot remove yourself'', ms)
        else if map_option m_role (currentUserMember ms userId) = Some (Some ''admin'')
                \<and> adminCount ms \<le> 1
        then (Inl ''Cannot remove the last admin'', ms)
        else
          (case store_fault e of
             Some msg \<Rightarrow> (Inl msg, ms)
           | None \<Rightarrow>
              (Inr True,
               filter (\<lambda>m. \<not> (m_team_id m = STUDIO_DIRECTION_TEAM_ID \<and> m_user_id m = userId)) ms)))"

text \<open>Two sample teams: one admin and one member; two admins.\<close>

definition team1 :: "team_member list" where
  "team1 = [\<lparr>m_team_id = STUDIO_DIRECTION_TEAM_ID, m_user_id = ''ana'', m_role = Some ''admin''\<rparr>,
            \<lparr>m_team_id = STUDIO_DIRECTION_TEAM_ID, m_user_id = ''ben'', m_role = Some ''member''\<rparr>]"

definition team2 :: "team_member list" where
  "team2 = [\<lparr>m_team_id = STUDIO_DIRECTION_TEAM_ID, m_user_id = ''ana'', m_role = Some ''admin''\<rparr>,
            \<lparr>m_team_id = STUDIO_DIRECTION_TEAM_ID, m_user_id = ''ben'', m_role = Some ''admin''\<rparr>]"

section \<open>The task list view: filter, sort and export (all-tasks page)\<close>

text \<open>
  \<open>TaskWithMetadata\<close>: a task row enriched with the assignee's and creator's profiles and
  the two rollups; the rollups are optional fields.
\<close>

record profile =
  p_full_name :: string
  p_user_id :: string

record task_with_metadata = task +
  tm_assignee :: "profile option"
  tm_creator :: "profile option"
  tm_total_tracked_minutes :: "int option"
  tm_comment_count :: "int option"

subsection \<open>Strings\<close>

text \<open>
  A string is modelled by its UTF-16 code units, which are taken below 256 (the Latin-1
  range): a \<open>char\<close> is a code unit. \<open><\<close> on strings is the lexicographic order on code
  units, which is how JavaScript compares two strings.

  \<open>trim\<close> strips white space and line terminators; in this range they are the tab, line
  feed, vertical tab, form feed, carriage return, space and no-break space.
\<close>

definition is_space :: "char \<Rightarrow> bool" where
  "is_space c =
    (c \<in> set [CHR 0x09, CHR 0x0A, CHR 0x0B, CHR 0x0C, CHR 0x0D, CHR 0x20, CHR 0xA0])"

definition trim :: "string \<Rightarrow> string" where
  "trim s = rev (dropWhile is_space (rev (dropWhile is_space s)))"

text \<open>
  \<open>toLowerCase\<close>: in this range the letters with a lower-case form are \<open>A\<close> to \<open>Z\<close> and
  the accented capitals \<open>0xC0\<close> to \<open>0xDE\<close> other than the multiplication sign \<open>0xD7\<close>; the
  lower-case form lies 32 above.
\<close>

definition lower_char :: "char \<Rightarrow> char" where
  "lower_char c =
    (if (CHR ''A'' \<le> c \<and> c \<le> CHR ''Z'') \<or>
        (CHR 0xC0 \<le> c \<and> c \<le> CHR 0xDE \<and> c \<noteq> CHR 0xD7)
     then char_of (of_char c + (32::nat)) else c)"

definition toLowerCase :: "string \<Rightarrow> string" where
  "toLowerCase s = map lower_char s"

text \<open>\<open>s.includes(q)\<close>: \<open>q\<close> occurs in \<open>s\<close> as a contiguous substring.\<close>

fun includes_str :: "string \<Rightarrow> string \<Rightarrow> bool" where
  "includes_str [] q = (q = [])"
| "includes_str (c # cs) q = (take (length q) (c # cs) = q \<or> includes_str cs q)"

subsection \<open>Filter and sort criteria\<close>

datatype sort_by = created_at | priority | due_date | assignee

datatype sort_order = asc | desc

text \<open>
  The state the page filters by: the six filter inputs (an empty string for a filter that
  is not set) and the optional sort key and direction of \<open>filters\<close>.
\<close>

record criteria =
  searchQuery :: string
  statusFilter :: string
  assigneeFilter :: string
  priorityFilter :: string
  dueDateFrom :: string
  dueDateTo :: string
  sort_by :: "sort_by option"
  sort_order :: "sort_order option"

subsection \<open>Sorting\<close>

text \<open>
  The value a task is sorted by: a number, \<open>NaN\<close> (the time of a date that does not
  parse), a string, or a member that the table \<open>priorityOrder\<close> inherits from the object
  prototype, given by the text it converts to. \<open>>\<close> and \<open><\<close> compare numbers with numbers
  and strings with strings; every comparison with \<open>NaN\<close> is false; an inherited member is
  converted to its text, which compares with another such text as a string and is not a
  number, so that its comparison with a number is false. The time and name keys yield
  values of one kind, so a string never meets a number.
\<close>

datatype sortval = Number int | NaN | String string | Inherited string

fun js_lt :: "sortval \<Rightarrow> sortval \<Rightarrow> bool" where
  "js_lt (Number a) (Number b) = (a < b)"
| "js_lt (String a) (String b) = (a < b)"
| "js_lt (Inherited a) (Inherited b) = (a < b)"
| "js_lt _ _ = False"

definition js_gt :: "sortval \<Rightarrow> sortval \<Rightarrow> bool" where
  "js_gt a b = js_lt b a"

text \<open>
  \<open>priorityOrder\<close> and the value \<open>priorityOrder[p] || 0\<close>. The table is an object literal:
  a name that is not one of its four keys is looked up in the object prototype.
  \<open>inherited\<close> gives, for each name found there (\<open>constructor\<close>, \<open>toString\<close>, ...), the text
  its value converts to; such a value is truthy. A priority of \<open>null\<close> and a name found
  nowhere give \<open>undefined\<close>, hence 0.
\<close>

definition priorityOrder :: "string \<rightharpoonup> int" where
  "priorityOrder = map_of [(''urgent'', 4), (''high'', 3), (''normal'', 2), (''low'', 1)]"

definition priorityValue :: "(string \<rightharpoonup> string) \<Rightarrow> string option \<Rightarrow> sortval" where
  "priorityValue inherited p =
    (case p of
       None \<Rightarrow> Number 0
     | Some k \<Rightarrow>
        (case priorityOrder k of
           Some n \<Rightarrow> (if n = 0 then Number 0 else Number n)
         | None \<Rightarrow> (case inherited k of Some text \<Rightarrow> Inherited text | None \<Rightarrow> Number 0)))"

text \<open>
  The rank of the specification: urgent 4, high 3, normal 2, low 1, and 0 for an unset
  priority.
\<close>

definition priorityRank :: "string option \<Rightarrow> int" where
  "priorityRank p =
    (if p = Some ''urgent'' then 4 else if p = Some ''high'' then 3
     else if p = Some ''normal'' then 2 else if p = Some ''low'' then 1 else 0)"

text \<open>The priorities of the data model: one of the four names, or unset.\<close>

definition known_priority :: "string option \<Rightarrow> bool" where
  "known_priority p =
    (p = None \<or> p = Some ''urgent'' \<or> p = Some ''high'' \<or> p = Some ''normal'' \<or> p = Some ''low'')"

text \<open>\<open>new Date(s).getTime()\<close> with \<open>getTime\<close> the date parser: \<open>None\<close> is \<open>NaN\<close>.\<close>

definition timeOf :: "(string \<Rightarrow> int option) \<Rightarrow> string \<Rightarrow> sortval" where
  "timeOf getTime s = (case getTime s of None \<Rightarrow> NaN | Some ms \<Rightarrow> Number ms)"

definition fullNameOrEmpty :: "profile option \<Rightarrow> string" where
  "fullNameOrEmpty a = (case a of None \<Rightarrow> [] | Some p \<Rightarrow> p_full_name p)"

definition sortValue ::
  "(string \<rightharpoonup> string) \<Rightarrow> (string \<Rightarrow> int option) \<Rightarrow> sort_by \<Rightarrow>
     'a task_with_metadata_scheme \<Rightarrow> sortval" where
  "sortValue inherited getTime sortBy a =
    (case sortBy of
       priority \<Rightarrow> priorityValue inherited (t_priority a)
     | due_date \<Rightarrow> (if truthy (t_due_date a) then timeOf getTime (the (t_due_date a))
                     else Number 0)
     | assignee \<Rightarrow> String (fullNameOrEmpty (tm_assignee a))
     | created_at \<Rightarrow> timeOf getTime (t_created_at a))"

text \<open>The comparator handed to \<open>filtered.sort\<close>.\<close>

definition compareTasks ::
  "(string \<rightharpoonup> string) \<Rightarrow> (string \<Rightarrow> int option) \<Rightarrow> sort_by \<Rightarrow> sort_order \<Rightarrow>
     'a task_with_metadata_scheme \<Rightarrow> 'a task_with_metadata_scheme \<Rightarrow> int" where
  "compareTasks inherited getTime sortBy sortOrder a b =
    (let aValue = sortValue inherited getTime sortBy a;
         bValue = sortValue inherited getTime sortBy b
     in if sortOrder = asc
        then (if js_gt aValue bValue then 1 else if js_lt aValue bValue then -1 else 0)
        else (if js_lt aValue bValue then 1 else if js_gt aValue bValue then -1 else 0))"

text \<open>
  \<open>Array.prototype.sort\<close> with a comparator is a stable sort: here by insertion, each
  element placed before the first one it does not come after. For a comparator that is
  a consistent ordering, as every sort key gives when the dates parse and no priority is
  an inherited name, the outcome of a stable sort does not depend on the algorithm.
\<close>

fun insert_by :: "('a \<Rightarrow> 'a \<Rightarrow> int) \<Rightarrow> 'a \<Rightarrow> 'a list \<Rightarrow> 'a list" where
  "insert_by cmp x [] = [x]"
| "insert_by cmp x (y # ys) = (if cmp x y \<le> 0 then x # y # ys else y # insert_by cmp x ys)"

definition array_sort :: "('a \<Rightarrow> 'a \<Rightarrow> int) \<Rightarrow> 'a list \<Rightarrow> 'a list" where
  "array_sort cmp xs = foldr (insert_by cmp) xs []"

subsection \<open>The pipeline\<close>

definition matchesSearch :: "string \<Rightarrow> 'a task_with_metadata_scheme \<Rightarrow> bool" where
  "matchesSearch query t =
    (includes_str (toLowerCase (t_title t)) query \<or>
     (truthy (t_description t) \<and> includes_str (toLowerCase (the (t_description t))) query))"

definition applyFilters ::
  "(string \<rightharpoonup> string) \<Rightarrow> (string \<Rightarrow> int option) \<Rightarrow> criteria \<Rightarrow>
     'a task_with_metadata_scheme list \<Rightarrow> 'a task_with_metadata_scheme list" where
  "applyFilters inherited getTime c tasks =
    (let filtered = tasks;
         filtered = (if trim (searchQuery c) \<noteq> []
                     then filter (matchesSearch (toLowerCase (searchQuery c))) filtered
                     else filtered);
         filtered = (if statusFilter c \<noteq> []
                     then filter (\<lambda>t. t_status t = statusFilter c) filtered else filtered);
         filtered = (if assigneeFilter c \<noteq> []
                     then filter (\<lambda>t. t_assignee_id t = Some (assigneeFilter c)) filtered
                     else filtered);
         filtered = (if priorityFilter c \<noteq> []
                     then filter (\<lambda>t. t_priority t = Some (priorityFilter c)) filtered
                     else filtered);
         filtered = (if dueDateFrom c \<noteq> []
                     then filter (\<lambda>t. truthy (t_due_date t) \<and> the (t_due_date t) \<ge> dueDateFrom c)
                            filtered
                     else filtered);
         filtered = (if dueDateTo c \<noteq> []
                     then filter (\<lambda>t. truthy (t_due_date t) \<and> the (t_due_date t) \<le> dueDateTo c)
                            filtered
                     else filtered);
         sortBy = (case sort_by c of None \<Rightarrow> created_at | Some k \<Rightarrow> k);
         sortOrder = (case sort_order c of None \<Rightarrow> desc | Some d \<Rightarrow> d)
     in array_sort (compareTasks inherited getTime sortBy sortOrder) filtered)"

text \<open>
  The filter criteria in the words of the specification: a task is shown when it
  satisfies every criterion that is supplied; a due-date bound is inclusive and is never
  met by a task without a due date.
\<close>

definition satisfies :: "criteria \<Rightarrow> 'a task_with_metadata_scheme \<Rightarrow> bool" where
  "satisfies c t =
    ((trim (searchQuery c) \<noteq> [] \<longrightarrow> matchesSearch (toLowerCase (searchQuery c)) t) \<and>
     (statusFilter c \<noteq> [] \<longrightarrow> t_status t = statusFilter c) \<and>
     (assigneeFilter c \<noteq> [] \<longrightarrow> t_assignee_id t = Some (assigneeFilter c)) \<and>
     (priorityFilter c \<noteq> [] \<longrightarrow> t_priority t = Some (priorityFilter c)) \<and>
     (dueDateFrom c \<noteq> [] \<longrightarrow>
        (case t_due_date t of None \<Rightarrow> False | Some d \<Rightarrow> d \<noteq> [] \<and> dueDateFrom c \<le> d)) \<and>
     (dueDateTo c \<noteq> [] \<longrightarrow>
        (case t_due_date t of None \<Rightarrow> False | Some d \<Rightarrow> d \<noteq> [] \<and> d \<le> dueDateTo c)))"

text \<open>
  Sample tasks and criteria for the examples of the specification, and a sample of what
  the table inherits.
\<close>

definition sample_inherited :: "string \<rightharpoonup> string" where
  "sample_inherited =
    map_of [(''constructor'', ''function Object() { [native code] }''),
            (''toString'', ''function toString() { [native code] }'')]"

definition sample_task ::
  "string \<Rightarrow> string option \<Rightarrow> string option \<Rightarrow> task_with_metadata" where
  "sample_task name prio due =
    \<lparr>t_id = name, t_title = name, t_description = None, t_status = ''todo'',
     t_priority = prio, t_due_date = due, t_estimated_time_minutes = None,
     t_assignee_id = None, t_creator_id = Some ''bob'', t_project_id = None,
     t_created_at = ''2024-01-01T00:00:00.000Z'', t_updated_at = ''2024-01-01T00:00:00.000Z'',
     tm_assignee = None, tm_creator = None,
     tm_total_tracked_minutes = Some 0, tm_comment_count = None\<rparr>"

definition no_criteria :: criteria where
  "no_criteria =
    \<lparr>searchQuery = [], statusFilter = [], assigneeFilter = [], priorityFilter = [],
     dueDateFrom = [], dueDateTo = [], sort_by = None, sort_order = None\<rparr>"

subsection \<open>Export\<close>

text \<open>The decimal rendering of an integer, as \<open>toString\<close> and template strings give it.\<close>

fun string_of_nat :: "nat \<Rightarrow> string" where
  "string_of_nat n =
    (if n < 10 then [''0123456789'' ! n]
     else string_of_nat (n div 10) @ [''0123456789'' ! (n mod 10)])"

declare string_of_nat.simps [simp del]

definition string_of_int :: "int \<Rightarrow> string" where
  "string_of_int i = (if i < 0 then CHR ''-'' # string_of_nat (nat (- i)) else string_of_nat (nat i))"

text \<open>\<open>a % b\<close>: the remainder has the sign of the dividend.\<close>

definition js_rem :: "int \<Rightarrow> int \<Rightarrow> int" where
  "js_rem a b = sgn a * (\<bar>a\<bar> mod \<bar>b\<bar>)"

definition formatTime :: "int \<Rightarrow> string" where
  "formatTime minutes =
    (let hours = minutes div 60; mins = js_rem minutes 60
     in if hours > 0 \<and> mins > 0 then string_of_int hours @ ''h '' @ string_of_int mins @ ''m''
        else if hours > 0 then string_of_int hours @ ''h''
        else string_of_int mins @ ''m'')"

text \<open>\<open>n ? f(n) : d\<close> for an optional number: \<open>null\<close>, \<open>undefined\<close> and \<open>0\<close> are falsy.\<close>

definition number_or :: "int option \<Rightarrow> (int \<Rightarrow> string) \<Rightarrow> string \<Rightarrow> string" where
  "number_or n f d = (case n of None \<Rightarrow> d | Some k \<Rightarrow> if k = 0 then d else f k)"

text \<open>\<open>s || d\<close> for an optional string.\<close>

definition string_or :: "string option \<Rightarrow> string \<Rightarrow> string" where
  "string_or s d = (if truthy s then the s else d)"

text \<open>
  One row of \<open>exportToCSV\<close>; \<open>toLocaleDateString\<close> is the locale's rendering of a date
  string.
\<close>

definition exportRow ::
  "(string \<Rightarrow> string) \<Rightarrow> 'a task_with_metadata_scheme \<Rightarrow> string list" where
  "exportRow toLocaleDateString task =
    [t_title task,
     t_status task,
     string_or (map_option p_full_name (tm_assignee task)) ''Unassigned'',
     string_or (t_priority task) ''normal'',
     (if truthy (t_due_date task) then toLocaleDateString (the (t_due_date task)) else []),
     number_or (t_estimated_time_minutes task) formatTime [],
     number_or (tm_total_tracked_minutes task) formatTime ''0h'',
     string_or (map_option string_of_int (tm_comment_count task)) ''0'',
     toLocaleDateString (t_created_at task)]"

definition exportRows ::
  "(string \<Rightarrow> string) \<Rightarrow> 'a task_with_metadata_scheme list \<Rightarrow> string list list" where
  "exportRows toLocaleDateString filteredTasks = map (exportRow toLocaleDateString) filteredTasks"

section \<open>JavaScript numbers\<close>

text \<open>
  A JavaScript number is an IEEE 754 binary64 value. A finite number is modelled by the
  rational it denotes, and an arithmetic operation by the exact operation followed by
  rounding to the nearest number with 53 significant bits, ties to the even significand.
  The model covers the normal range (magnitudes from \<open>2^-1022\<close> up to the largest finite
  number), which is where counts, minutes, their sums, quotients and percentages lie.

  \<open>binade x\<close> is the exponent \<open>e\<close> with \<open>2^e \<le> x < 2^(e+1)\<close> of a positive \<open>x\<close>, found from
  the bit lengths of numerator and denominator.
\<close>

definition binade :: "rat \<Rightarrow> int" where
  "binade x =
    (let (p, q) = quotient_of x; d = bitlen p - bitlen q
     in if 2 powi d \<le> x then d else d - 1)"

text \<open>Rounding to the nearest integer, a tie going to the even one.\<close>

definition round_even :: "rat \<Rightarrow> int" where
  "round_even x =
    (let f = \<lfloor>x\<rfloor>; r = x - of_int f
     in if r < 1 / 2 then f
        else if r > 1 / 2 then f + 1
        else if even f then f else f + 1)"

text \<open>
  The nearest binary64 number: the significand \<open>\<bar>x\<bar> / 2^(e - 52)\<close> rounded to an integer,
  with the sign of \<open>x\<close>.
\<close>

definition fl :: "rat \<Rightarrow> rat" where
  "fl x =
    (if x = 0 then 0
     else (let e = binade \<bar>x\<bar>
           in sgn x * of_int (round_even (\<bar>x\<bar> * 2 powi (52 - e))) * 2 powi (e - 52)))"

definition js_add :: "rat \<Rightarrow> rat \<Rightarrow> rat" where
  "js_add a b = fl (a + b)"

definition js_div :: "rat \<Rightarrow> rat \<Rightarrow> rat" where
  "js_div a b = fl (a / b)"

definition js_mul :: "rat \<Rightarrow> rat \<Rightarrow> rat" where
  "js_mul a b = fl (a * b)"

text \<open>The number an integer of the store is read as.\<close>

definition number_of :: "int \<Rightarrow> rat" where
  "number_of i = fl (of_int i)"

section \<open>Rollups (task-actions, project-actions, team-actions)\<close>

text \<open>
  A row of the \<open>time_entries\<close> table. The member reference is set to the authenticated
  user when the entry is inserted.
\<close>

record time_entry =
  e_id :: string
  e_task_id :: string
  e_user_id :: string
  e_minutes :: int
  e_created_at :: string

subsection \<open>Tracked minutes\<close>

text \<open>
  \<open>timeEntries?.reduce((sum, entry) => sum + entry.minutes, 0) || 0\<close>, with \<open>None\<close> for a
  query that returned no data. The sum is taken in JavaScript numbers, one addition
  after the other.
\<close>

definition totalTrackedMinutes :: "time_entry list option \<Rightarrow> rat" where
  "totalTrackedMinutes timeEntries =
    (case timeEntries of
       None \<Rightarrow> 0
     | Some es \<Rightarrow>
        (let total = foldl (\<lambda>sum entry. js_add sum (number_of (e_minutes entry))) 0 es
         in if total = 0 then 0 else total))"

text \<open>The rollup of one task in \<open>getAllTasks\<close>: the entries whose task reference is the task.\<close>

definition taskTrackedMinutes :: "time_entry list \<Rightarrow> string \<Rightarrow> rat" where
  "taskTrackedMinutes time_entries taskId =
    totalTrackedMinutes (Some (filter (\<lambda>e. e_task_id e = taskId) time_entries))"

text \<open>
  The rollup of a project in \<open>getAllProjects\<close> and \<open>getProjectById\<close>: the entries whose
  task reference is among the project's tasks.
\<close>

text \<open>The sum of the specification, and the size of the entries it is stated for.\<close>

definition minutesSum :: "time_entry list \<Rightarrow> int" where
  "minutesSum es = sum_list (map e_minutes es)"

definition minutesSize :: "time_entry list \<Rightarrow> int" where
  "minutesSize es = sum_list (map (\<lambda>e. \<bar>e_minutes e\<bar>) es)"

text \<open>Three entries of one task, the first of \<open>2^53\<close> minutes.\<close>

definition large_entries :: "time_entry list" where
  "large_entries =
    [\<lparr>e_id = ''e1'', e_task_id = ''t1'', e_user_id = ''u1'', e_minutes = 9007199254740992,
      e_created_at = ''2024-01-01T00:00:00.000Z''\<rparr>,
     \<lparr>e_id = ''e2'', e_task_id = ''t1'', e_user_id = ''u1'', e_minutes = 1,
      e_created_at = ''2024-01-02T00:00:00.000Z''\<rparr>,
     \<lparr>e_id = ''e3'', e_task_id = ''t1'', e_user_id = ''u1'', e_minutes = 1,
      e_created_at = ''2024-01-03T00:00:00.000Z''\<rparr>]"

definition projectTrackedMinutes :: "time_entry list \<Rightarrow> 'a task_scheme list \<Rightarrow> rat" where
  "projectTrackedMinutes time_entries tasks =
    totalTrackedMinutes (Some (filter (\<lambda>e. e_task_id e \<in> set (map t_id tasks)) time_entries))"

subsection \<open>Active members\<close>

text \<open>
  A JavaScript \<open>Set\<close> of strings: its members in insertion order, \<open>add\<close> ignoring a value
  that is already there, \<open>size\<close> the number of members.
\<close>

definition set_add :: "string list \<Rightarrow> string \<Rightarrow> string list" where
  "set_add s x = (if x \<in> set s then s else s @ [x])"

definition new_Set :: "string list \<Rightarrow> string list" where
  "new_Set xs = foldl set_add [] xs"

text \<open>
  The time zone of the process: the offset of local time from UTC in milliseconds, at an
  instant given in UTC (\<open>offset_at_utc\<close>) and at a time given in local time
  (\<open>offset_at_local\<close>).
\<close>

record time_zone =
  offset_at_utc :: "int \<Rightarrow> int"
  offset_at_local :: "int \<Rightarrow> int"

definition msPerDay :: int where
  "msPerDay = 24 * 60 * 60 * 1000"

text \<open>
  \<open>thirtyDaysAgo\<close>: \<open>new Date()\<close> followed by \<open>setDate(getDate() - 30)\<close>. The clock is taken
  to local time; setting the day of the month to thirty less than it is moves the local
  day back by thirty and keeps the time within the day; the outcome is taken back to
  UTC with the offset that holds at that local time.
\<close>

definition thirtyDaysAgo :: "time_zone \<Rightarrow> int \<Rightarrow> int" where
  "thirtyDaysAgo tz now =
    (let t = now + offset_at_utc tz now;
         newDate = t - 30 * msPerDay
     in newDate - offset_at_local tz newDate)"

text \<open>
  The \<open>active_members\<close> of \<open>getTeamStats\<close>. The store compares timestamps as instants:
  \<open>instant\<close> gives the instant of a stored timestamp in milliseconds, \<open>now\<close> is the
  clock. The first query yields the users of the time entries created since the
  cutoff, the second the assignees of the complete tasks updated since the cutoff; an
  assignee is added when it is truthy.
\<close>

definition activeUserIds ::
  "time_zone \<Rightarrow> (string \<Rightarrow> int) \<Rightarrow> int \<Rightarrow> time_entry list \<Rightarrow> 'a task_scheme list \<Rightarrow>
     string list" where
  "activeUserIds tz instant now time_entries tasks =
    (let recentActivities = filter (\<lambda>e. instant (e_created_at e) \<ge> thirtyDaysAgo tz now)
                              time_entries;
         activeUserIds = new_Set (map e_user_id recentActivities);
         recentTasks = filter (\<lambda>t. t_status t = ''complete'' \<and>
                                      instant (t_updated_at t) \<ge> thirtyDaysAgo tz now) tasks
     in foldl (\<lambda>s t. if truthy (t_assignee_id t) then set_add s (the (t_assignee_id t)) else s)
          activeUserIds recentTasks)"

definition active_members ::
  "time_zone \<Rightarrow> (string \<Rightarrow> int) \<Rightarrow> int \<Rightarrow> time_entry list \<Rightarrow> 'a task_scheme list \<Rightarrow> nat"
  where
  "active_members tz instant now time_entries tasks =
    length (activeUserIds tz instant now time_entries tasks)"

text \<open>
  The two sets of the specification, for a window of \<open>windowDays\<close> days of twenty-four
  hours before the evaluation instant \<open>now\<close>: the members who produced a time entry
  within the window, and the members who completed a task with an update timestamp
  within the window.
\<close>

definition trackedWithin ::
  "(string \<Rightarrow> int) \<Rightarrow> int \<Rightarrow> int \<Rightarrow> time_entry list \<Rightarrow> string set" where
  "trackedWithin instant windowDays now time_entries =
    {e_user_id e | e. e \<in> set time_entries \<and>
        now - windowDays * 86400000 \<le> instant (e_created_at e)}"

definition completedWithin ::
  "(string \<Rightarrow> int) \<Rightarrow> int \<Rightarrow> int \<Rightarrow> 'a task_scheme list \<Rightarrow> string set" where
  "completedWithin instant windowDays now tasks =
    {u. \<exists>t \<in> set tasks. t_status t = ''complete'' \<and>
          now - windowDays * 86400000 \<le> instant (t_updated_at t) \<and>
          t_assignee_id t = Some u \<and> u \<noteq> []}"

text \<open>
  The change between the zone's offset at the evaluation instant and its offset thirty
  local days earlier.
\<close>

definition zone_shift :: "time_zone \<Rightarrow> int \<Rightarrow> int" where
  "zone_shift tz now =
    offset_at_utc tz now - offset_at_local tz (now + offset_at_utc tz now - 30 * 86400000)"

text \<open>
  A sample zone one hour ahead of UTC that moves to two hours ahead on 31 March 2024 at
  01:00 UTC, a zone without offset, a clock at 15 April 2024 12:00 UTC, and a time entry
  created 29 days and 23.5 hours before that clock.
\<close>

definition sample_zone :: time_zone where
  "sample_zone =
    \<lparr>offset_at_utc = (\<lambda>t. if t < 1711846800000 then 3600000 else 7200000),
     offset_at_local = (\<lambda>t. if t < 1711846800000 + 3600000 then 3600000 else 7200000)\<rparr>"

definition utc_zone :: time_zone where
  "utc_zone = \<lparr>offset_at_utc = (\<lambda>t. 0), offset_at_local = (\<lambda>t. 0)\<rparr>"

definition sample_now :: int where
  "sample_now = 1713182400000"

definition sample_instant :: "string \<Rightarrow> int" where
  "sample_instant s =
    (case map_of [(''2024-03-16T12:30:00.000Z'', 1710592200000),
                  (''2024-04-01T09:00:00.000Z'', 1711962000000),
                  (''2024-01-01T00:00:00.000Z'', 1704067200000)] s of
       Some t \<Rightarrow> t | None \<Rightarrow> 0)"

definition sample_entry :: time_entry where
  "sample_entry =
    \<lparr>e_id = ''e1'', e_task_id = ''t1'', e_user_id = ''u1'', e_minutes = 45,
     e_created_at = ''2024-03-16T12:30:00.000Z''\<rparr>"

text \<open>A complete task of a given assignee, last updated at a given timestamp.\<close>

definition done_task :: "string \<Rightarrow> string option \<Rightarrow> string \<Rightarrow> task" where
  "done_task name who updated =
    \<lparr>t_id = name, t_title = name, t_description = None, t_status = ''complete'',
     t_priority = None, t_due_date = None, t_estimated_time_minutes = None,
     t_assignee_id = who, t_creator_id = Some ''bob'', t_project_id = None,
     t_created_at = ''2024-01-01T00:00:00.000Z'', t_updated_at = updated\<rparr>"

subsection \<open>Project progress\<close>

text \<open>\<open>Math.round\<close>: the nearest integer, a tie going up.\<close>

definition Math_round :: "rat \<Rightarrow> int" where
  "Math_round x = \<lfloor>x + 1 / 2\<rfloor>"

text \<open>
  \<open>totalTasks > 0 ? Math.round((completedTaskCount / totalTasks) * 100) : 0\<close>, as in
  \<open>getAllProjects\<close> and \<open>getProjectById\<close>.
\<close>

definition progressPercentage :: "nat \<Rightarrow> nat \<Rightarrow> int" where
  "progressPercentage completedTaskCount totalTasks =
    (if totalTasks > 0
     then Math_round (js_mul (js_div (of_nat completedTaskCount) (of_nat totalTasks)) 100)
     else 0)"

text \<open>The progress of a project from the list of its tasks.\<close>

definition projectProgress :: "'a task_scheme list \<Rightarrow> int" where
  "projectProgress tasks =
    (let completedTaskCount = length (filter (\<lambda>t. t_status t = ''complete'') tasks);
         totalTasks = length tasks
     in progressPercentage completedTaskCount totalTasks)"

text \<open>The percentage of the specification: the exact ratio rounded, a half going up.\<close>

definition exactPercentage :: "nat \<Rightarrow> nat \<Rightarrow> int" where
  "exactPercentage completedCount totalCount =
    (if totalCount > 0 then \<lfloor>100 * of_nat completedCount / (of_nat totalCount :: rat) + 1 / 2\<rfloor>
     else 0)"

text \<open>
  The exact percentage \<open>100 c / t\<close> lies halfway between two integers: \<open>100 c / t + 1/2\<close>,
  which is \<open>(200 c + t) / (2 t)\<close>, is an integer.
\<close>

definition halfway :: "nat \<Rightarrow> nat \<Rightarrow> bool" where
  "halfway c t = ((2 * t) dvd (200 * c + t))"

text \<open>A project with \<open>c\<close> complete tasks among \<open>t\<close>.\<close>

definition project_tasks :: "nat \<Rightarrow> nat \<Rightarrow> task list" where
  "project_tasks c t =
    map (\<lambda>i. \<lparr>t_id = string_of_nat i, t_title = ''task'', t_description = None,
               t_status = (if i < c then ''complete'' else ''todo''),
               t_priority = None, t_due_date = None, t_estimated_time_minutes = None,
               t_assignee_id = None, t_creator_id = None, t_project_id = Some ''p1'',
               t_created_at = ''2024-01-01'', t_updated_at = ''2024-01-01''\<rparr>) [0..<t]"

section \<open>Optimistic comment submission (TaskComments)\<close>

record attachment =
  a_url :: string
  a_name :: string
  a_type :: string
  a_size :: int

record comment_user =
  cu_full_name :: string
  cu_user_id :: string
  cu_avatar_url :: "string option"

record comment =
  c_id :: string
  c_content :: string
  c_created_at :: string
  c_attachments :: "attachment list option"
  c_user :: "comment_user option"

text \<open>The component's state that \<open>handleSubmit\<close> reads and writes.\<close>

record comments_state =
  comments :: "comment list"
  newComment :: string
  loading :: bool
  error :: "string option"
  uploadedFiles :: "attachment list"

text \<open>What \<open>addComment\<close> returns: \<open>{ error }\<close> or \<open>{ data }\<close>.\<close>

record add_result =
  r_error :: "string option"
  r_data :: "comment option"

text \<open>
  \<open>s.replace(/<[^>]*>/g, '')\<close>: a \<open><\<close> opens a tag when a \<open>>\<close> follows somewhere, and
  the tag ends at the first \<open>>\<close>.
\<close>

fun stripTags :: "string \<Rightarrow> string" and skipTag :: "string \<Rightarrow> string" where
  "stripTags [] = []"
| "stripTags (c # cs) =
    (if c = CHR ''<'' \<and> CHR ''>'' \<in> set cs then skipTag cs else c # stripTags cs)"
| "skipTag [] = []"
| "skipTag (c # cs) = (if c = CHR ''>'' then stripTags cs else skipTag cs)"

definition textContent :: "string \<Rightarrow> string" where
  "textContent s = trim (stripTags s)"

text \<open>
  The pending record: \<open>now\<close> is \<open>Date.now()\<close>, \<open>nowIso\<close> is \<open>new Date().toISOString()\<close>,
  \<open>currentUser\<close> the profile read for the signed-in user.
\<close>

definition optimisticComment ::
  "int \<Rightarrow> string \<Rightarrow> comment_user option \<Rightarrow> comments_state \<Rightarrow> comment" where
  "optimisticComment now nowIso currentUser st =
    \<lparr>c_id = ''temp-'' @ string_of_int now,
     c_content = newComment st,
     c_created_at = nowIso,
     c_attachments = (if length (uploadedFiles st) > 0 then Some (uploadedFiles st) else None),
     c_user = currentUser\<rparr>"

text \<open>
  The state once the pending record is shown and the form is cleared, before the
  answer of \<open>addComment\<close>.
\<close>

definition submit_optimistic ::
  "int \<Rightarrow> string \<Rightarrow> comment_user option \<Rightarrow> comments_state \<Rightarrow> comments_state" where
  "submit_optimistic now nowIso currentUser st =
    st\<lparr>error := None, loading := True,
       comments := comments st @ [optimisticComment now nowIso currentUser st],
       newComment := [], uploadedFiles := []\<rparr>"

text \<open>
  The state once \<open>addComment\<close> has answered: on an error the pending record is filtered
  out and the form restored; on data the pending record is mapped to the server's
  record; an answer with neither changes nothing.
\<close>

definition submit_settle ::
  "comment \<Rightarrow> string \<Rightarrow> attachment list \<Rightarrow> add_result \<Rightarrow> comments_state \<Rightarrow> comments_state"
  where
  "submit_settle optimistic commentToSave filesToSave result st =
    (if truthy (r_error result)
     then st\<lparr>comments := filter (\<lambda>c. c_id c \<noteq> c_id optimistic) (comments st),
             error := r_error result,
             newComment := commentToSave,
             uploadedFiles := filesToSave,
             loading := False\<rparr>
     else (case r_data result of
             Some d \<Rightarrow>
               st\<lparr>comments := map (\<lambda>c. if c_id c = c_id optimistic then d else c) (comments st),
                  loading := False\<rparr>
           | None \<Rightarrow> st))"

text \<open>
  \<open>handleSubmit\<close>, with \<open>addComment\<close> the server action applied to the task: it gets the
  saved text and the saved files (\<open>undefined\<close> when there are none). The call is awaited
  outside any \<open>try\<close>: when it is rejected (\<open>None\<close>: the request does not reach the server
  or gets no answer), \<open>handleSubmit\<close> ends there, with the state as it is.
\<close>

definition handleSubmit ::
  "(string \<Rightarrow> attachment list option \<Rightarrow> add_result option) \<Rightarrow> int \<Rightarrow> string \<Rightarrow>
     comment_user option \<Rightarrow> comments_state \<Rightarrow> comments_state" where
  "handleSubmit addComment now nowIso currentUser st =
    (if textContent (newComment st) = [] \<and> length (uploadedFiles st) = 0
     then st\<lparr>error := Some ''Comment cannot be empty''\<rparr>
     else
       (let optimistic = optimisticComment now nowIso currentUser st;
            commentToSave = newComment st;
            filesToSave = uploadedFiles st;
            st1 = submit_optimistic now nowIso currentUser st;
            answer = addComment commentToSave
                       (if length filesToSave > 0 then Some filesToSave else None)
        in case answer of
             None \<Rightarrow> st1
           | Some result \<Rightarrow> submit_settle optimistic commentToSave filesToSave result st1))"

text \<open>
  A sample state and the two answers of the specification's example; the sample state
  with a record that carries the identity \<open>temp-5\<close>; an answer whose error message is
  empty.
\<close>

definition sample_comments :: comments_state where
  "sample_comments =
    \<lparr>comments = [\<lparr>c_id = ''srv-0'', c_content = ''first'', c_created_at = ''2024-01-01'',
                  c_attachments = None, c_user = None\<rparr>],
     newComment = ''hello'', loading = False, error = None, uploadedFiles = []\<rparr>"

definition sample_success :: add_result where
  "sample_success =
    \<lparr>r_error = None,
     r_data = Some \<lparr>c_id = ''srv-1'', c_content = ''hello'', c_created_at = ''2024-02-01'',
                    c_attachments = None, c_user = None\<rparr>\<rparr>"

definition sample_failure :: add_result where
  "sample_failure = \<lparr>r_error = Some ''Not authenticated'', r_data = None\<rparr>"

definition sample_collision :: comments_state where
  "sample_collision =
    sample_comments\<lparr>comments :=
      comments sample_comments @
        [\<lparr>c_id = ''temp-5'', c_content = ''earlier'', c_created_at = ''2024-01-31'',
          c_attachments = None, c_user = None\<rparr>]\<rparr>"

definition sample_empty_error :: add_result where
  "sample_empty_error = \<lparr>r_error = Some [], r_data = None\<rparr>"

text \<open>An \<open>addComment\<close> whose call is rejected, and one that answers with a given result.\<close>

definition rejected :: "string \<Rightarrow> attachment list option \<Rightarrow> add_result option" where
  "rejected content files = None"

definition answering :: "add_result \<Rightarrow> string \<Rightarrow> attachment list option \<Rightarrow> add_result option"
  where
  "answering result content files = Some result"

section \<open>Properties of the task mutations\<close>

lemma single_Some_iff: "single xs = Some x \<longleftrightarrow> xs = [x]"
  by (cases xs rule: single.cases) auto

text \<open>
  The single-task status update refuses an actor who is neither the stored assignee nor
  the stored creator of the named task, and leaves the table as it was.
\<close>

lemma updateTaskStatus_unauthorized:
  assumes "auth_user e = Some user"
    and "single (filter (\<lambda>t. t_id t = taskId) db) = Some task"
    and "t_assignee_id task \<noteq> Some user" and "t_creator_id task \<noteq> Some user"
  shows "updateTaskStatus e db taskId status = (Inl ''Not authorized to update this task'', db)"
  using assms by (simp add: updateTaskStatus_def)

lemma updateTaskDescription_unauthorized:
  assumes "auth_user e = Some user"
    and "single (filter (\<lambda>t. t_id t = taskId) db) = Some task"
    and "t_assignee_id task \<noteq> Some user" and "t_creator_id task \<noteq> Some user"
  shows "updateTaskDescription e db taskId d = (Inl ''Not authorized to update this task'', db)"
  using assms by (simp add: updateTaskDescription_def)

text \<open>
  C1. Every status or content mutation is to refuse an actor who is neither the stored
  assignee nor the stored creator. The two single-task mutations do
  (\<open>updateTaskStatus_unauthorized\<close>, \<open>updateTaskDescription_unauthorized\<close>); the bulk
  update makes no such check: for a task assigned to alice and created by bob, the actor
  carol sets the status through \<open>bulkUpdateTasks\<close>, which reports success.
\<close>

theorem bulkUpdateTasks_skips_authorization:
  "bulkUpdateTasks
     \<lparr>auth_user = Some ''carol'', clock = ''2024-02-01T00:00:00.000Z'', store_fault = None\<rparr>
     [\<lparr>t_id = ''t1'', t_title = ''Write report'', t_description = None, t_status = ''todo'',
       t_priority = None, t_due_date = None, t_estimated_time_minutes = None,
       t_assignee_id = Some ''alice'', t_creator_id = Some ''bob'', t_project_id = None,
       t_created_at = ''2024-01-01T00:00:00.000Z'',
       t_updated_at = ''2024-01-01T00:00:00.000Z''\<rparr>]
     [''t1''] \<lparr>u_status = Some ''complete'', u_assignee_id = None\<rparr>
   = (Inr [\<lparr>t_id = ''t1'', t_title = ''Write report'', t_description = None,
            t_status = ''complete'',
            t_priority = None, t_due_date = None, t_estimated_time_minutes = None,
            t_assignee_id = Some ''alice'', t_creator_id = Some ''bob'', t_project_id = None,
            t_created_at = ''2024-01-01T00:00:00.000Z'',
            t_updated_at = ''2024-02-01T00:00:00.000Z''\<rparr>],
      [\<lparr>t_id = ''t1'', t_title = ''Write report'', t_description = None,
        t_status = ''complete'',
        t_priority = None, t_due_date = None, t_estimated_time_minutes = None,
        t_assignee_id = Some ''alice'', t_creator_id = Some ''bob'', t_project_id = None,
        t_created_at = ''2024-01-01T00:00:00.000Z'',
        t_updated_at = ''2024-02-01T00:00:00.000Z''\<rparr>])"
  by (simp add: bulkUpdateTasks_def db_update_def updateData_def)

lemma bulkUpdateTasks_error_unchanged:
  "bulkUpdateTasks e db taskIds u = (Inl msg, db') \<Longrightarrow> db' = db"
  by (auto simp: bulkUpdateTasks_def db_update_def split: option.splits)

lemma updateData_fields:
  "t_updated_at (updateData e u t) = clock e"
  "t_status (updateData e u t) = (if truthy (u_status u) then the (u_status u) else t_status t)"
  "t_assignee_id (updateData e u t) =
     (case u_assignee_id u of None \<Rightarrow> t_assignee_id t
      | Some a \<Rightarrow> if a = [] then None else Some a)"
  "t_id (updateData e u t) = t_id t"
  "t_title (updateData e u t) = t_title t"
  "t_description (updateData e u t) = t_description t"
  "t_priority (updateData e u t) = t_priority t"
  "t_due_date (updateData e u t) = t_due_date t"
  "t_estimated_time_minutes (updateData e u t) = t_estimated_time_minutes t"
  "t_project_id (updateData e u t) = t_project_id t"
  "t_creator_id (updateData e u t) = t_creator_id t"
  "t_created_at (updateData e u t) = t_created_at t"
  by (simp_all add: updateData_def Let_def or_null_def split: option.splits)

text \<open>
  C10. A bulk update that goes through (an authenticated actor, no store failure) keeps
  the table's rows in place and, on every named task, sets the updated timestamp (whether
  or not a status or an assignee is supplied), sets the status when one is supplied, sets
  the assignee when one is supplied (an empty one stored as absent), and leaves the
  identity, title, description, priority, due date, estimated minutes, project reference,
  creator reference and creation timestamp as they were. A task that is not named is not
  touched.
\<close>

theorem bulkUpdateTasks_frame:
  assumes "auth_user e = Some user" and "store_fault e = None"
  shows "\<exists>rows db'.
    bulkUpdateTasks e db taskIds u = (Inr rows, db') \<and>
    length db' = length db \<and>
    (\<forall>i < length db.
       (t_id (db ! i) \<notin> set taskIds \<longrightarrow> db' ! i = db ! i) \<and>
       (t_id (db ! i) \<in> set taskIds \<longrightarrow>
          t_updated_at (db' ! i) = clock e \<and>
          t_status (db' ! i) =
            (if truthy (u_status u) then the (u_status u) else t_status (db ! i)) \<and>
          t_assignee_id (db' ! i) =
            (case u_assignee_id u of None \<Rightarrow> t_assignee_id (db ! i)
             | Some a \<Rightarrow> if a = [] then None else Some a) \<and>
          t_id (db' ! i) = t_id (db ! i) \<and>
          t_title (db' ! i) = t_title (db ! i) \<and>
          t_description (db' ! i) = t_description (db ! i) \<and>
          t_priority (db' ! i) = t_priority (db ! i) \<and>
          t_due_date (db' ! i) = t_due_date (db ! i) \<and>
          t_estimated_time_minutes (db' ! i) = t_estimated_time_minutes (db ! i) \<and>
          t_project_id (db' ! i) = t_project_id (db ! i) \<and>
          t_creator_id (db' ! i) = t_creator_id (db ! i) \<and>
          t_created_at (db' ! i) = t_created_at (db ! i)))"
  using assms
  by (simp add: bulkUpdateTasks_def db_update_def updateData_fields)

text \<open>
  The frame property at a call that supplies neither status nor assignee: the named task
  only gets the new timestamp, the other task is untouched.
\<close>

theorem bulkUpdateTasks_frame_witness:
  "\<exists>rows db'.
    bulkUpdateTasks
      \<lparr>auth_user = Some ''carol'', clock = ''2024-02-01'', store_fault = None\<rparr>
      [\<lparr>t_id = ''t1'', t_title = ''A'', t_description = None, t_status = ''todo'',
        t_priority = Some ''high'', t_due_date = None, t_estimated_time_minutes = Some 30,
        t_assignee_id = Some ''alice'', t_creator_id = Some ''bob'', t_project_id = None,
        t_created_at = ''2024-01-01'', t_updated_at = ''2024-01-01''\<rparr>,
       \<lparr>t_id = ''t2'', t_title = ''B'', t_description = None, t_status = ''todo'',
        t_priority = None, t_due_date = None, t_estimated_time_minutes = None,
        t_assignee_id = None, t_creator_id = Some ''bob'', t_project_id = None,
        t_created_at = ''2024-01-02'', t_updated_at = ''2024-01-02''\<rparr>]
      [''t1''] \<lparr>u_status = None, u_assignee_id = None\<rparr> = (Inr rows, db') \<and>
    length db' = 2 \<and>
    db' ! 1 = \<lparr>t_id = ''t2'', t_title = ''B'', t_description = None, t_status = ''todo'',
        t_priority = None, t_due_date = None, t_estimated_time_minutes = None,
        t_assignee_id = None, t_creator_id = Some ''bob'', t_project_id = None,
        t_created_at = ''2024-01-02'', t_updated_at = ''2024-01-02''\<rparr> \<and>
    t_updated_at (db' ! 0) = ''2024-02-01'' \<and>
    t_status (db' ! 0) = ''todo'' \<and>
    t_assignee_id (db' ! 0) = Some ''alice'' \<and>
    t_title (db' ! 0) = ''A''"
  using bulkUpdateTasks_frame
    [of "\<lparr>auth_user = Some ''carol'', clock = ''2024-02-01'', store_fault = None\<rparr>"
        "''carol''"
        "[\<lparr>t_id = ''t1'', t_title = ''A'', t_description = None, t_status = ''todo'',
        t_priority = Some ''high'', t_due_date = None, t_estimated_time_minutes = Some 30,
        t_assignee_id = Some ''alice'', t_creator_id = Some ''bob'', t_project_id = None,
        t_created_at = ''2024-01-01'', t_updated_at = ''2024-01-01''\<rparr>,
       \<lparr>t_id = ''t2'', t_title = ''B'', t_description = None, t_status = ''todo'',
        t_priority = None, t_due_date = None, t_estimated_time_minutes = None,
        t_assignee_id = None, t_creator_id = Some ''bob'', t_project_id = None,
        t_created_at = ''2024-01-02'', t_updated_at = ''2024-01-02''\<rparr>]"
        "[''t1'']" "\<lparr>u_status = None, u_assignee_id = None\<rparr>"]
  by (simp add: bulkUpdateTasks_def db_update_def updateData_def)

section \<open>Properties of the membership operations\<close>

lemma filter_key_single:
  "distinct (map f xs) \<Longrightarrow> x \<in> set xs \<Longrightarrow> filter (\<lambda>y. f y = f x) xs = [x]"
proof (induction xs)
  case Nil
  then show ?case by simp
next
  case (Cons a xs)
  show ?case
  proof (cases "a = x")
    case True
    have "f x \<notin> f ` set xs" using Cons.prems(1) True by simp
    then have "\<And>y. y \<in> set xs \<Longrightarrow> f y \<noteq> f x" by (metis imageI)
    then have "filter (\<lambda>y. f y = f x) xs = []"
      by (simp add: filter_empty_conv)
    then show ?thesis using True by simp
  next
    case False
    then have "x \<in> set xs" using Cons.prems(2) by simp
    moreover have "f a \<noteq> f x" using Cons.prems(1) \<open>x \<in> set xs\<close> by auto
    ultimately show ?thesis using Cons by auto
  qed
qed

lemma currentUserMember_keyed:
  assumes "distinct (map m_user_id (team_rows ms))" and "m \<in> set (team_rows ms)"
  shows "currentUserMember ms (m_user_id m) = Some m"
  using filter_key_single [OF assms] by (simp add: currentUserMember_def)

lemma currentUserMember_in:
  "currentUserMember ms u = Some m \<Longrightarrow> m \<in> set (team_rows ms) \<and> m_user_id m = u"
proof -
  assume "currentUserMember ms u = Some m"
  then have "filter (\<lambda>m. m_user_id m = u) (team_rows ms) = [m]"
    by (simp add: currentUserMember_def single_Some_iff)
  then have "m \<in> set (filter (\<lambda>m. m_user_id m = u) (team_rows ms))" by simp
  then show ?thesis by simp
qed

lemma sole_admin_unique:
  assumes "adminCount ms = 1"
    and "a \<in> set (team_rows ms)" "m_role a = Some ''admin''"
    and "b \<in> set (team_rows ms)" "m_role b = Some ''admin''"
  shows "a = b"
proof -
  obtain z where z: "filter (\<lambda>m. m_role m = Some ''admin'') (team_rows ms) = [z]"
    using assms(1) by (auto simp: adminCount_def length_Suc_conv)
  have "a \<in> set (filter (\<lambda>m. m_role m = Some ''admin'') (team_rows ms))"
    and "b \<in> set (filter (\<lambda>m. m_role m = Some ''admin'') (team_rows ms))"
    using assms by simp_all
  then show ?thesis unfolding z by simp
qed

lemma sole_admin_is_actor:
  assumes "adminCount ms = 1"
    and "m \<in> set (team_rows ms)" and "m_role m = Some ''admin''"
    and "map_option m_role (currentUserMember ms u) = Some (Some ''admin'')"
  shows "u = m_user_id m"
proof -
  from assms(4) obtain a where a: "currentUserMember ms u = Some a" "m_role a = Some ''admin''"
    by (cases "currentUserMember ms u") auto
  from currentUserMember_in [OF a(1)] have "a \<in> set (team_rows ms)" "m_user_id a = u"
    by simp_all
  moreover have "a = m"
    using sole_admin_unique [OF assms(1) \<open>a \<in> set (team_rows ms)\<close> a(2) assms(2,3)] .
  ultimately show ?thesis by simp
qed

lemma sole_admin_demote_self:
  assumes "distinct (map m_user_id (team_rows ms))"
    and "m \<in> set (team_rows ms)" and "m_role m = Some ''admin''"
    and "adminCount ms = 1" and "auth_user e = Some (m_user_id m)"
  shows "updateMemberRole e ms (m_user_id m) ''member'' = (Inl ''Cannot remove the last admin'', ms)"
  using assms by (simp add: updateMemberRole_def currentUserMember_keyed)

lemma sole_admin_remove_self:
  assumes "distinct (map m_user_id (team_rows ms))"
    and "m \<in> set (team_rows ms)" and "m_role m = Some ''admin''"
    and "auth_user e = Some (m_user_id m)"
  shows "removeMember e ms (m_user_id m) = (Inl ''Cannot remove yourself'', ms)"
  using assms by (simp add: removeMember_def currentUserMember_keyed)

lemma sole_admin_demote_other:
  assumes "m \<in> set (team_rows ms)" and "m_role m = Some ''admin''"
    and "adminCount ms = 1" and "auth_user e \<noteq> Some (m_user_id m)"
  shows "updateMemberRole e ms (m_user_id m) ''member'' =
           (Inl (if auth_user e = None then ''Not authenticated''
                 else ''Only admins can change member roles''), ms)"
proof (cases "auth_user e")
  case None
  then show ?thesis by (simp add: updateMemberRole_def)
next
  case (Some u)
  with assms(4) have "u \<noteq> m_user_id m" by simp
  then have "map_option m_role (currentUserMember ms u) \<noteq> Some (Some ''admin'')"
    using sole_admin_is_actor [OF assms(3) assms(1) assms(2)] by blast
  then show ?thesis using Some by (simp add: updateMemberRole_def)
qed

lemma sole_admin_remove_other:
  assumes "m \<in> set (team_rows ms)" and "m_role m = Some ''admin''"
    and "adminCount ms = 1" and "auth_user e \<noteq> Some (m_user_id m)"
  shows "removeMember e ms (m_user_id m) =
           (Inl (if auth_user e = None then ''Not authenticated''
                 else ''Only admins can remove members''), ms)"
proof (cases "auth_user e")
  case None
  then show ?thesis by (simp add: removeMember_def)
next
  case (Some u)
  with assms(4) have "u \<noteq> m_user_id m" by simp
  then have "map_option m_role (currentUserMember ms u) \<noteq> Some (Some ''admin'')"
    using sole_admin_is_actor [OF assms(3) assms(1) assms(2)] by blast
  then show ?thesis using Some by (simp add: removeMember_def)
qed

lemma two_admins_demote:
  assumes "distinct (map m_user_id (team_rows ms))"
    and "a \<in> set (team_rows ms)" and "m_role a = Some ''admin''"
    and "1 < adminCount ms"
    and "auth_user e = Some (m_user_id a)" and "store_fault e = None"
  shows "updateMemberRole e ms userId ''member'' =
           (Inr True,
            map (\<lambda>r. if m_team_id r = STUDIO_DIRECTION_TEAM_ID \<and> m_user_id r = userId
                      then r\<lparr>m_role := Some ''member''\<rparr> else r) ms)"
  using assms by (simp add: updateMemberRole_def currentUserMember_keyed)

lemma two_admins_remove:
  assumes "distinct (map m_user_id (team_rows ms))"
    and "a \<in> set (team_rows ms)" and "m_role a = Some ''admin''"
    and "1 < adminCount ms"
    and "auth_user e = Some (m_user_id a)" and "store_fault e = None"
    and "userId \<noteq> m_user_id a"
  shows "removeMember e ms userId =
           (Inr True,
            filter (\<lambda>r. \<not> (m_team_id r = STUDIO_DIRECTION_TEAM_ID \<and> m_user_id r = userId)) ms)"
  using assms by (simp add: removeMember_def currentUserMember_keyed)

text \<open>
  C4 (as amended). In a team keyed by user, let \<open>m\<close> be an admin. When \<open>m\<close> is the only
  admin: demoting \<open>m\<close> fails and leaves the membership unchanged, with the last-admin
  error when the actor is \<open>m\<close> (the only one allowed to change roles) and with the
  not-authenticated or not-an-admin error for any other actor; removing \<open>m\<close> fails and
  leaves the membership unchanged, with the self-removal error when the actor is \<open>m\<close>
  and with the not-authenticated or not-an-admin error otherwise. When the team has more
  than one admin and the store accepts the write: any admin demotes \<open>m\<close>, and any
  other admin removes \<open>m\<close>.
\<close>

theorem last_admin_guard:
  assumes "distinct (map m_user_id (team_rows ms))"
    and "m \<in> set (team_rows ms)" and "m_role m = Some ''admin''"
  shows
    "(adminCount ms = 1 \<longrightarrow>
        (auth_user e = Some (m_user_id m) \<longrightarrow>
           updateMemberRole e ms (m_user_id m) ''member'' =
             (Inl ''Cannot remove the last admin'', ms) \<and>
           removeMember e ms (m_user_id m) = (Inl ''Cannot remove yourself'', ms)) \<and>
        (auth_user e \<noteq> Some (m_user_id m) \<longrightarrow>
           updateMemberRole e ms (m_user_id m) ''member'' =
             (Inl (if auth_user e = None then ''Not authenticated''
                   else ''Only admins can change member roles''), ms) \<and>
           removeMember e ms (m_user_id m) =
             (Inl (if auth_user e = None then ''Not authenticated''
                   else ''Only admins can remove members''), ms))) \<and>
     (1 < adminCount ms \<longrightarrow>
        (\<forall>a \<in> set (team_rows ms).
           m_role a = Some ''admin'' \<and> auth_user e = Some (m_user_id a) \<and>
           store_fault e = None \<longrightarrow>
             updateMemberRole e ms (m_user_id m) ''member'' =
               (Inr True,
                map (\<lambda>r. if m_team_id r = STUDIO_DIRECTION_TEAM_ID \<and> m_user_id r = m_user_id m
                          then r\<lparr>m_role := Some ''member''\<rparr> else r) ms) \<and>
             (a \<noteq> m \<longrightarrow>
                removeMember e ms (m_user_id m) =
                  (Inr True,
                   filter (\<lambda>r. \<not> (m_team_id r = STUDIO_DIRECTION_TEAM_ID \<and>
                                    m_user_id r = m_user_id m)) ms))))"
proof (intro conjI impI ballI)
  assume "adminCount ms = 1" "auth_user e = Some (m_user_id m)"
  then show "updateMemberRole e ms (m_user_id m) ''member'' =
      (Inl ''Cannot remove the last admin'', ms)"
    using sole_admin_demote_self assms by blast
next
  assume "auth_user e = Some (m_user_id m)"
  then show "removeMember e ms (m_user_id m) = (Inl ''Cannot remove yourself'', ms)"
    using sole_admin_remove_self assms by blast
next
  assume "adminCount ms = 1" "auth_user e \<noteq> Some (m_user_id m)"
  then show "updateMemberRole e ms (m_user_id m) ''member'' =
             (Inl (if auth_user e = None then ''Not authenticated''
                   else ''Only admins can change member roles''), ms)"
    using sole_admin_demote_other [OF assms(2,3)] by blast
next
  assume "adminCount ms = 1" "auth_user e \<noteq> Some (m_user_id m)"
  then show "removeMember e ms (m_user_id m) =
             (Inl (if auth_user e = None then ''Not authenticated''
                   else ''Only admins can remove members''), ms)"
    using sole_admin_remove_other [OF assms(2,3)] by blast
next
  fix a
  assume h: "1 < adminCount ms" "a \<in> set (team_rows ms)"
    "m_role a = Some ''admin'' \<and> auth_user e = Some (m_user_id a) \<and> store_fault e = None"
  then show "updateMemberRole e ms (m_user_id m) ''member'' =
               (Inr True,
                map (\<lambda>r. if m_team_id r = STUDIO_DIRECTION_TEAM_ID \<and> m_user_id r = m_user_id m
                          then r\<lparr>m_role := Some ''member''\<rparr> else r) ms)"
    using two_admins_demote [OF assms(1) h(2)] by blast
  assume "a \<noteq> m"
  then have "m_user_id m \<noteq> m_user_id a"
    using assms(1,2) h(2) by (metis distinct_map inj_on_contraD)
  then show "removeMember e ms (m_user_id m) =
                  (Inr True,
                   filter (\<lambda>r. \<not> (m_team_id r = STUDIO_DIRECTION_TEAM_ID \<and>
                                    m_user_id r = m_user_id m)) ms)"
    using two_admins_remove [OF assms(1) h(2)] h by blast
qed

theorem last_admin_guard_witness:
  "updateMemberRole \<lparr>auth_user = Some ''ana'', clock = ''2024-02-01'', store_fault = None\<rparr>
      team1 ''ana'' ''member'' = (Inl ''Cannot remove the last admin'', team1) \<and>
   removeMember \<lparr>auth_user = Some ''ana'', clock = ''2024-02-01'', store_fault = None\<rparr>
      team1 ''ana'' = (Inl ''Cannot remove yourself'', team1) \<and>
   updateMemberRole \<lparr>auth_user = Some ''ben'', clock = ''2024-02-01'', store_fault = None\<rparr>
      team1 ''ana'' ''member'' = (Inl ''Only admins can change member roles'', team1) \<and>
   removeMember \<lparr>auth_user = Some ''ben'', clock = ''2024-02-01'', store_fault = None\<rparr>
      team1 ''ana'' = (Inl ''Only admins can remove members'', team1) \<and>
   updateMemberRole \<lparr>auth_user = Some ''ben'', clock = ''2024-02-01'', store_fault = None\<rparr>
      team2 ''ana'' ''member'' =
        (Inr True,
         [\<lparr>m_team_id = STUDIO_DIRECTION_TEAM_ID, m_user_id = ''ana'', m_role = Some ''member''\<rparr>,
          \<lparr>m_team_id = STUDIO_DIRECTION_TEAM_ID, m_user_id = ''ben'', m_role = Some ''admin''\<rparr>]) \<and>
   removeMember \<lparr>auth_user = Some ''ben'', clock = ''2024-02-01'', store_fault = None\<rparr>
      team2 ''ana'' =
        (Inr True,
         [\<lparr>m_team_id = STUDIO_DIRECTION_TEAM_ID, m_user_id = ''ben'', m_role = Some ''admin''\<rparr>])"
  using
    last_admin_guard [of team1
      "\<lparr>m_team_id = STUDIO_DIRECTION_TEAM_ID, m_user_id = ''ana'', m_role = Some ''admin''\<rparr>"
      "\<lparr>auth_user = Some ''ana'', clock = ''2024-02-01'', store_fault = None\<rparr>"]
    last_admin_guard [of team1
      "\<lparr>m_team_id = STUDIO_DIRECTION_TEAM_ID, m_user_id = ''ana'', m_role = Some ''admin''\<rparr>"
      "\<lparr>auth_user = Some ''ben'', clock = ''2024-02-01'', store_fault = None\<rparr>"]
    last_admin_guard [of team2
      "\<lparr>m_team_id = STUDIO_DIRECTION_TEAM_ID, m_user_id = ''ana'', m_role = Some ''admin''\<rparr>"
      "\<lparr>auth_user = Some ''ben'', clock = ''2024-02-01'', store_fault = None\<rparr>"]
  by (simp add: team1_def team2_def adminCount_def team_rows_def)

text \<open>
  C4 as stated fails on removal. In the team with the single admin ana, removing ana is
  refused with the self-removal error when ana acts and with the not-an-admin error when
  ben acts, not with the last-admin error; in the team with the two admins ana and
  ben, ana removing themself is refused as well.
\<close>

theorem remove_sole_admin_counterexample:
  "adminCount team1 = 1 \<and>
   removeMember \<lparr>auth_user = Some ''ana'', clock = ''2024-02-01'', store_fault = None\<rparr>
      team1 ''ana'' = (Inl ''Cannot remove yourself'', team1) \<and>
   fst (removeMember \<lparr>auth_user = Some ''ana'', clock = ''2024-02-01'', store_fault = None\<rparr>
      team1 ''ana'') \<noteq> Inl ''Cannot remove the last admin'' \<and>
   removeMember \<lparr>auth_user = Some ''ben'', clock = ''2024-02-01'', store_fault = None\<rparr>
      team1 ''ana'' = (Inl ''Only admins can remove members'', team1) \<and>
   adminCount team2 = 2 \<and>
   removeMember \<lparr>auth_user = Some ''ana'', clock = ''2024-02-01'', store_fault = None\<rparr>
      team2 ''ana'' = (Inl ''Cannot remove yourself'', team2)"
  by (simp add: team1_def team2_def adminCount_def team_rows_def removeMember_def
      currentUserMember_def)

section \<open>Properties of the task list view\<close>

lemma mset_insert_by: "mset (insert_by cmp x ys) = add_mset x (mset ys)"
  by (induction ys) simp_all

lemma mset_array_sort: "mset (array_sort cmp xs) = mset xs"
  by (induction xs) (simp_all add: array_sort_def mset_insert_by)

lemma set_array_sort: "set (array_sort cmp xs) = set xs"
  using mset_array_sort [of cmp xs] by (metis set_mset_mset)

lemma set_insert_by: "set (insert_by cmp x ys) = insert x (set ys)"
  using mset_insert_by [of cmp x ys] by (metis set_mset_add_mset_insert set_mset_mset)

text \<open>
  When the comparator orders the elements at hand by a key, insertion keeps a list
  ordered by that key.
\<close>

lemma sorted_insert_by:
  fixes f :: "'a \<Rightarrow> int"
  assumes "\<And>a b. P a \<Longrightarrow> P b \<Longrightarrow> (cmp a b \<le> 0 \<longleftrightarrow> f a \<le> f b)"
    and "P x" and "\<forall>y \<in> set ys. P y" and "sorted (map f ys)"
  shows "sorted (map f (insert_by cmp x ys))"
  using assms(3,4)
proof (induction ys)
  case Nil
  then show ?case by simp
next
  case (Cons y ys)
  have y: "P y" using Cons.prems(1) by simp
  show ?case
  proof (cases "cmp x y \<le> 0")
    case True
    then have "f x \<le> f y" using assms(1) [OF assms(2) y] by simp
    then show ?thesis using True Cons.prems by auto
  next
    case False
    then have "f y \<le> f x" using assms(1) [OF assms(2) y] by linarith
    then show ?thesis using False Cons by (auto simp: set_insert_by)
  qed
qed

lemma sorted_array_sort:
  fixes f :: "'a \<Rightarrow> int"
  assumes "\<And>a b. P a \<Longrightarrow> P b \<Longrightarrow> (cmp a b \<le> 0 \<longleftrightarrow> f a \<le> f b)"
    and "\<forall>x \<in> set xs. P x"
  shows "sorted (map f (array_sort cmp xs))"
  using assms(2)
proof (induction xs)
  case Nil
  then show ?case by (simp add: array_sort_def)
next
  case (Cons x xs)
  have e: "array_sort cmp (x # xs) = insert_by cmp x (array_sort cmp xs)"
    by (simp add: array_sort_def)
  have "sorted (map f (insert_by cmp x (array_sort cmp xs)))"
  proof (rule sorted_insert_by [where P = P])
    show "\<And>a b. P a \<Longrightarrow> P b \<Longrightarrow> (cmp a b \<le> 0 \<longleftrightarrow> f a \<le> f b)" by (rule assms(1))
    show "P x" using Cons.prems by simp
    show "\<forall>y \<in> set (array_sort cmp xs). P y" using Cons.prems by (simp add: set_array_sort)
    show "sorted (map f (array_sort cmp xs))" using Cons by simp
  qed
  then show ?case by (simp only: e)
qed

text \<open>
  For a priority of the data model the table is not left: the value sorted by is the
  rank. A name that the table inherits is sorted by what it inherits.
\<close>

lemma priorityValue_known:
  "known_priority p \<Longrightarrow> priorityValue inherited p = Number (priorityRank p)"
  by (auto simp: known_priority_def priorityValue_def priorityOrder_def priorityRank_def)

lemma compareTasks_priority_asc:
  assumes "known_priority (t_priority a)" and "known_priority (t_priority b)"
  shows "compareTasks inherited getTime priority asc a b \<le> 0 \<longleftrightarrow>
     priorityRank (t_priority a) \<le> priorityRank (t_priority b)"
  using assms by (simp add: compareTasks_def sortValue_def js_gt_def priorityValue_known)

lemma compareTasks_priority_desc:
  assumes "known_priority (t_priority a)" and "known_priority (t_priority b)"
  shows "compareTasks inherited getTime priority desc a b \<le> 0 \<longleftrightarrow>
     - priorityRank (t_priority a) \<le> - priorityRank (t_priority b)"
  using assms by (simp add: compareTasks_def sortValue_def js_gt_def priorityValue_known)

text \<open>The view is the tasks that satisfy the criteria, sorted.\<close>

lemma applyFilters_eq:
  "applyFilters inherited getTime c tasks =
     array_sort (compareTasks inherited getTime
                   (case sort_by c of None \<Rightarrow> created_at | Some k \<Rightarrow> k)
                   (case sort_order c of None \<Rightarrow> desc | Some d \<Rightarrow> d))
       (filter (satisfies c) tasks)"
proof -
  have *: "\<And>b P xs. (if b then filter P xs else xs) = filter (\<lambda>x. b \<longrightarrow> P x) xs"
    by simp
  have **: "\<And>t d. (truthy (t_due_date t) \<and> d \<le> the (t_due_date t)) =
       (case t_due_date t of None \<Rightarrow> False | Some x \<Rightarrow> x \<noteq> [] \<and> d \<le> x)"
    by (simp split: option.splits)
  have ***: "\<And>t d. (truthy (t_due_date t) \<and> the (t_due_date t) \<le> d) =
       (case t_due_date t of None \<Rightarrow> False | Some x \<Rightarrow> x \<noteq> [] \<and> x \<le> d)"
    by (simp split: option.splits)
  have "filter (\<lambda>t. dueDateTo c \<noteq> [] \<longrightarrow>
            (case t_due_date t of None \<Rightarrow> False | Some x \<Rightarrow> x \<noteq> [] \<and> x \<le> dueDateTo c))
         (filter (\<lambda>t. dueDateFrom c \<noteq> [] \<longrightarrow>
            (case t_due_date t of None \<Rightarrow> False | Some x \<Rightarrow> x \<noteq> [] \<and> dueDateFrom c \<le> x))
         (filter (\<lambda>t. priorityFilter c \<noteq> [] \<longrightarrow> t_priority t = Some (priorityFilter c))
         (filter (\<lambda>t. assigneeFilter c \<noteq> [] \<longrightarrow> t_assignee_id t = Some (assigneeFilter c))
         (filter (\<lambda>t. statusFilter c \<noteq> [] \<longrightarrow> t_status t = statusFilter c)
         (filter (\<lambda>t. trim (searchQuery c) \<noteq> [] \<longrightarrow>
                       matchesSearch (toLowerCase (searchQuery c)) t) tasks)))))
        = filter (satisfies c) tasks"
    unfolding filter_filter satisfies_def by (rule filter_cong) auto
  then show ?thesis
    unfolding applyFilters_def Let_def * ** *** by simp
qed

lemma applyFilters_mset:
  "mset (applyFilters inherited getTime c tasks) = mset (filter (satisfies c) tasks)"
  by (simp add: applyFilters_eq mset_array_sort)

lemma applyFilters_set:
  "set (applyFilters inherited getTime c tasks) = {t \<in> set tasks. satisfies c t}"
  by (simp add: applyFilters_eq set_array_sort)

lemma satisfies_sort_key:
  "satisfies (c\<lparr>sort_by := k, sort_order := d\<rparr>) = satisfies c"
proof
  fix t :: "'a task_with_metadata_scheme"
  show "satisfies (c\<lparr>sort_by := k, sort_order := d\<rparr>) t = satisfies c t"
    by (cases "t_due_date t") (simp_all add: satisfies_def)
qed

lemma applyFilters_sorted_priority_asc:
  assumes "sort_by c = Some priority" and "sort_order c = Some asc"
    and "\<forall>t \<in> set tasks. known_priority (t_priority t)"
  shows "sorted_wrt (\<lambda>a b. priorityRank (t_priority a) \<le> priorityRank (t_priority b))
           (applyFilters inherited getTime c tasks)"
proof -
  have "sorted (map (\<lambda>t. priorityRank (t_priority t))
      (array_sort (compareTasks inherited getTime priority asc) (filter (satisfies c) tasks)))"
  proof (rule sorted_array_sort [where P = "\<lambda>t. known_priority (t_priority t)"])
    show "\<forall>x \<in> set (filter (satisfies c) tasks). known_priority (t_priority x)"
      using assms(3) by simp
  qed (rule compareTasks_priority_asc)
  then show ?thesis using assms(1,2) by (simp add: applyFilters_eq sorted_map)
qed

lemma applyFilters_sorted_priority_desc:
  assumes "sort_by c = Some priority" and "sort_order c \<noteq> Some asc"
    and "\<forall>t \<in> set tasks. known_priority (t_priority t)"
  shows "sorted_wrt (\<lambda>a b. priorityRank (t_priority b) \<le> priorityRank (t_priority a))
           (applyFilters inherited getTime c tasks)"
proof -
  have d: "(case sort_order c of None \<Rightarrow> desc | Some d \<Rightarrow> d) = desc"
    using assms(2) by (cases "sort_order c") (auto intro: sort_order.exhaust)
  have "sorted (map (\<lambda>t. - priorityRank (t_priority t))
      (array_sort (compareTasks inherited getTime priority desc) (filter (satisfies c) tasks)))"
  proof (rule sorted_array_sort [where P = "\<lambda>t. known_priority (t_priority t)"])
    show "\<forall>x \<in> set (filter (satisfies c) tasks). known_priority (t_priority x)"
      using assms(3) by simp
  qed (rule compareTasks_priority_desc)
  then show ?thesis using assms(1) d by (simp add: applyFilters_eq sorted_map)
qed

text \<open>
  A priority outside the data model that names a member of the object prototype is
  sorted by that member, which compares with no number: the tasks with the priorities
  low, \<open>constructor\<close>, urgent keep their order when sorted in descending order.
\<close>

lemma priority_sort_inherited_name:
  "map t_id
     (applyFilters sample_inherited getTime
        (no_criteria\<lparr>sort_by := Some priority, sort_order := Some desc\<rparr>)
        [sample_task ''t1'' (Some ''low'') None, sample_task ''t2'' (Some ''constructor'') None,
         sample_task ''t3'' (Some ''urgent'') None])
     = [''t1'', ''t2'', ''t3'']"
  by (simp add: applyFilters_def no_criteria_def sample_task_def array_sort_def
      compareTasks_def sortValue_def priorityValue_def priorityOrder_def sample_inherited_def
      js_gt_def trim_def)

text \<open>
  C5. Sorting by priority ranks urgent 4, high 3, normal 2, low 1 and an unset priority 0,
  below low. For tasks whose priorities are of the data model (one of the four names, or
  unset), the view sorted by the priority key holds the tasks that the view holds under
  any other sort key, in ascending order of rank when the direction is ascending and in
  descending order of rank otherwise; tasks with the priorities urgent, unset, low come
  out as urgent, low, unset in descending order.
\<close>

theorem priority_sort:
  "priorityValue inherited (Some ''urgent'') = Number 4 \<and>
   priorityValue inherited (Some ''high'') = Number 3 \<and>
   priorityValue inherited (Some ''normal'') = Number 2 \<and>
   priorityValue inherited (Some ''low'') = Number 1 \<and>
   priorityValue inherited None = Number 0 \<and>
   js_lt (priorityValue inherited None) (priorityValue inherited (Some ''low'')) \<and>
   (sort_by c = Some priority \<and> (\<forall>t \<in> set tasks. known_priority (t_priority t)) \<longrightarrow>
      mset (applyFilters inherited getTime c tasks) =
        mset (applyFilters inherited getTime (c\<lparr>sort_by := k, sort_order := d\<rparr>) tasks) \<and>
      (sort_order c = Some asc \<longrightarrow>
         sorted_wrt (\<lambda>a b. priorityRank (t_priority a) \<le> priorityRank (t_priority b))
           (applyFilters inherited getTime c tasks)) \<and>
      (sort_order c \<noteq> Some asc \<longrightarrow>
         sorted_wrt (\<lambda>a b. priorityRank (t_priority b) \<le> priorityRank (t_priority a))
           (applyFilters inherited getTime c tasks))) \<and>
   map t_priority
     (applyFilters inherited getTime
        (no_criteria\<lparr>sort_by := Some priority, sort_order := Some desc\<rparr>)
        [sample_task ''t1'' (Some ''urgent'') None, sample_task ''t2'' None None,
         sample_task ''t3'' (Some ''low'') None])
     = [Some ''urgent'', Some ''low'', None]"
proof -
  have v: "priorityValue inherited (Some ''urgent'') = Number 4"
    "priorityValue inherited (Some ''high'') = Number 3"
    "priorityValue inherited (Some ''normal'') = Number 2"
    "priorityValue inherited (Some ''low'') = Number 1"
    "priorityValue inherited None = Number 0"
    by (simp_all add: priorityValue_def priorityOrder_def)
  have l: "js_lt (priorityValue inherited None) (priorityValue inherited (Some ''low''))"
    by (simp add: v)
  have m: "mset (applyFilters inherited getTime c tasks) =
        mset (applyFilters inherited getTime (c\<lparr>sort_by := k, sort_order := d\<rparr>) tasks)"
    by (simp only: applyFilters_mset satisfies_sort_key)
  have s: "sort_by c = Some priority \<and> (\<forall>t \<in> set tasks. known_priority (t_priority t)) \<longrightarrow>
      mset (applyFilters inherited getTime c tasks) =
        mset (applyFilters inherited getTime (c\<lparr>sort_by := k, sort_order := d\<rparr>) tasks) \<and>
      (sort_order c = Some asc \<longrightarrow>
         sorted_wrt (\<lambda>a b. priorityRank (t_priority a) \<le> priorityRank (t_priority b))
           (applyFilters inherited getTime c tasks)) \<and>
      (sort_order c \<noteq> Some asc \<longrightarrow>
         sorted_wrt (\<lambda>a b. priorityRank (t_priority b) \<le> priorityRank (t_priority a))
           (applyFilters inherited getTime c tasks))"
    using m applyFilters_sorted_priority_asc [of c tasks inherited getTime]
      applyFilters_sorted_priority_desc [of c tasks inherited getTime]
    by blast
  have x: "map t_priority
     (applyFilters inherited getTime
        (no_criteria\<lparr>sort_by := Some priority, sort_order := Some desc\<rparr>)
        [sample_task ''t1'' (Some ''urgent'') None, sample_task ''t2'' None None,
         sample_task ''t3'' (Some ''low'') None])
     = [Some ''urgent'', Some ''low'', None]"
    by (simp add: applyFilters_def no_criteria_def sample_task_def array_sort_def
        compareTasks_def sortValue_def priorityValue_def priorityOrder_def js_gt_def trim_def)
  show ?thesis using v l s x by blast
qed

theorem priority_sort_witness:
  "known_priority (Some ''urgent'') \<and> known_priority None \<and> known_priority (Some ''low'') \<and>
   known_priority (Some ''high'') \<and>
   map t_id
     (applyFilters sample_inherited (\<lambda>s. None)
        (no_criteria\<lparr>sort_by := Some priority, sort_order := Some asc\<rparr>)
        [sample_task ''t1'' (Some ''urgent'') None, sample_task ''t2'' None None,
         sample_task ''t3'' (Some ''low'') None, sample_task ''t4'' (Some ''high'') None])
     = [''t2'', ''t3'', ''t4'', ''t1''] \<and>
   sorted_wrt (\<lambda>a b. priorityRank (t_priority a) \<le> priorityRank (t_priority b))
     (applyFilters sample_inherited (\<lambda>s. None)
        (no_criteria\<lparr>sort_by := Some priority, sort_order := Some asc\<rparr>)
        [sample_task ''t1'' (Some ''urgent'') None, sample_task ''t2'' None None,
         sample_task ''t3'' (Some ''low'') None, sample_task ''t4'' (Some ''high'') None]) \<and>
   sorted_wrt (\<lambda>a b. priorityRank (t_priority b) \<le> priorityRank (t_priority a))
     (applyFilters sample_inherited (\<lambda>s. None)
        (no_criteria\<lparr>sort_by := Some priority, sort_order := Some desc\<rparr>)
        [sample_task ''t1'' (Some ''urgent'') None, sample_task ''t2'' None None,
         sample_task ''t3'' (Some ''low'') None, sample_task ''t4'' (Some ''high'') None])"
proof -
  have k: "\<forall>t \<in> set [sample_task ''t1'' (Some ''urgent'') None, sample_task ''t2'' None None,
               sample_task ''t3'' (Some ''low'') None, sample_task ''t4'' (Some ''high'') None].
      known_priority (t_priority t)"
    by (simp add: known_priority_def sample_task_def)
  have e: "map t_id
     (applyFilters sample_inherited (\<lambda>s. None)
        (no_criteria\<lparr>sort_by := Some priority, sort_order := Some asc\<rparr>)
        [sample_task ''t1'' (Some ''urgent'') None, sample_task ''t2'' None None,
         sample_task ''t3'' (Some ''low'') None, sample_task ''t4'' (Some ''high'') None])
     = [''t2'', ''t3'', ''t4'', ''t1'']"
    by (simp add: applyFilters_def no_criteria_def sample_task_def array_sort_def
        compareTasks_def sortValue_def priorityValue_def priorityOrder_def js_gt_def trim_def)
  have c: "sort_by (no_criteria\<lparr>sort_by := Some priority, sort_order := Some asc\<rparr>) = Some priority"
    "sort_order (no_criteria\<lparr>sort_by := Some priority, sort_order := Some asc\<rparr>) = Some asc"
    "sort_by (no_criteria\<lparr>sort_by := Some priority, sort_order := Some desc\<rparr>) = Some priority"
    "sort_order (no_criteria\<lparr>sort_by := Some priority, sort_order := Some desc\<rparr>) \<noteq> Some asc"
    by simp_all
  have k': "known_priority (Some ''urgent'') \<and> known_priority None \<and>
      known_priority (Some ''low'') \<and> known_priority (Some ''high'')"
    by (simp add: known_priority_def)
  show ?thesis
    using
      priority_sort [of sample_inherited
        "no_criteria\<lparr>sort_by := Some priority, sort_order := Some asc\<rparr>"
        "[sample_task ''t1'' (Some ''urgent'') None, sample_task ''t2'' None None,
          sample_task ''t3'' (Some ''low'') None, sample_task ''t4'' (Some ''high'') None]"
        "\<lambda>s. None"]
      priority_sort [of sample_inherited
        "no_criteria\<lparr>sort_by := Some priority, sort_order := Some desc\<rparr>"
        "[sample_task ''t1'' (Some ''urgent'') None, sample_task ''t2'' None None,
          sample_task ''t3'' (Some ''low'') None, sample_task ''t4'' (Some ''high'') None]"
        "\<lambda>s. None"]
      k k' e c
    by blast
qed

text \<open>
  C6. When a due-date lower bound or upper bound is set, every task of the view has a due
  date, not below the lower bound and not above the upper bound where these are set; a
  task without a due date is not in the view; and a task whose due date lies within the
  bounds, the bounds themselves included, is in the view when no other filter is set.
  With A due 2024-01-10, B without a due date and C due 2024-01-20, the lower bound
  2024-01-15 keeps only C.
\<close>

theorem due_date_filter:
  "(dueDateFrom c \<noteq> [] \<or> dueDateTo c \<noteq> [] \<longrightarrow>
      (\<forall>t \<in> set (applyFilters inherited getTime c tasks).
         \<exists>d. t_due_date t = Some d \<and> d \<noteq> [] \<and>
             (dueDateFrom c \<noteq> [] \<longrightarrow> dueDateFrom c \<le> d) \<and>
             (dueDateTo c \<noteq> [] \<longrightarrow> d \<le> dueDateTo c)) \<and>
      (\<forall>t \<in> set tasks. t_due_date t = None \<longrightarrow> t \<notin> set (applyFilters inherited getTime c tasks))) \<and>
   (trim (searchQuery c) = [] \<and> statusFilter c = [] \<and> assigneeFilter c = [] \<and>
    priorityFilter c = [] \<longrightarrow>
      (\<forall>t \<in> set tasks. \<forall>d. t_due_date t = Some d \<and> d \<noteq> [] \<and>
           (dueDateFrom c \<noteq> [] \<longrightarrow> dueDateFrom c \<le> d) \<and>
           (dueDateTo c \<noteq> [] \<longrightarrow> d \<le> dueDateTo c) \<longrightarrow>
         t \<in> set (applyFilters inherited getTime c tasks))) \<and>
   map t_id
     (applyFilters inherited getTime (no_criteria\<lparr>dueDateFrom := ''2024-01-15''\<rparr>)
        [sample_task ''A'' None (Some ''2024-01-10''), sample_task ''B'' None None,
         sample_task ''C'' None (Some ''2024-01-20'')])
     = [''C'']"
proof (intro conjI impI ballI allI)
  show "map t_id
     (applyFilters inherited getTime (no_criteria\<lparr>dueDateFrom := ''2024-01-15''\<rparr>)
        [sample_task ''A'' None (Some ''2024-01-10''), sample_task ''B'' None None,
         sample_task ''C'' None (Some ''2024-01-20'')])
     = [''C'']"
    by (simp add: applyFilters_def no_criteria_def sample_task_def array_sort_def trim_def)
next
  fix t
  assume "dueDateFrom c \<noteq> [] \<or> dueDateTo c \<noteq> []" "t \<in> set (applyFilters inherited getTime c tasks)"
  then show "\<exists>d. t_due_date t = Some d \<and> d \<noteq> [] \<and>
             (dueDateFrom c \<noteq> [] \<longrightarrow> dueDateFrom c \<le> d) \<and>
             (dueDateTo c \<noteq> [] \<longrightarrow> d \<le> dueDateTo c)"
    by (auto simp: applyFilters_set satisfies_def split: option.splits)
next
  fix t
  assume "dueDateFrom c \<noteq> [] \<or> dueDateTo c \<noteq> []" "t \<in> set tasks" "t_due_date t = None"
  then show "t \<notin> set (applyFilters inherited getTime c tasks)"
    by (auto simp: applyFilters_set satisfies_def)
next
  fix t d
  assume "trim (searchQuery c) = [] \<and> statusFilter c = [] \<and> assigneeFilter c = [] \<and>
    priorityFilter c = []" "t \<in> set tasks"
    "t_due_date t = Some d \<and> d \<noteq> [] \<and>
           (dueDateFrom c \<noteq> [] \<longrightarrow> dueDateFrom c \<le> d) \<and>
           (dueDateTo c \<noteq> [] \<longrightarrow> d \<le> dueDateTo c)"
  then show "t \<in> set (applyFilters inherited getTime c tasks)"
    by (simp add: applyFilters_set satisfies_def)
qed

theorem due_date_filter_witness:
  "map t_id
     (applyFilters sample_inherited (\<lambda>s. None)
        (no_criteria\<lparr>dueDateFrom := ''2024-01-15'', dueDateTo := ''2024-01-20''\<rparr>)
        [sample_task ''A'' None (Some ''2024-01-10''), sample_task ''B'' None None,
         sample_task ''C'' None (Some ''2024-01-20''),
         sample_task ''D'' None (Some ''2024-01-21'')]) = [''C''] \<and>
   map t_due_date
     (applyFilters sample_inherited (\<lambda>s. None)
        (no_criteria\<lparr>dueDateFrom := ''2024-01-15'', dueDateTo := ''2024-01-20''\<rparr>)
        [sample_task ''A'' None (Some ''2024-01-10''), sample_task ''B'' None None,
         sample_task ''C'' None (Some ''2024-01-20''),
         sample_task ''D'' None (Some ''2024-01-21'')]) = [Some ''2024-01-20'']"
  using due_date_filter
    [of "no_criteria\<lparr>dueDateFrom := ''2024-01-15'', dueDateTo := ''2024-01-20''\<rparr>"
        sample_inherited "\<lambda>s. None"
        "[sample_task ''A'' None (Some ''2024-01-10''), sample_task ''B'' None None,
          sample_task ''C'' None (Some ''2024-01-20''),
          sample_task ''D'' None (Some ''2024-01-21'')]"]
  by (simp add: applyFilters_def no_criteria_def sample_task_def array_sort_def trim_def
      compareTasks_def sortValue_def timeOf_def js_gt_def)

lemma string_of_nat_nonempty: "string_of_nat n \<noteq> []"
  by (subst string_of_nat.simps) simp

lemma string_of_int_nonempty: "string_of_int i \<noteq> []"
  by (simp add: string_of_int_def string_of_nat_nonempty)

lemma exportRow_columns:
  "exportRow toLocaleDateString task =
     [t_title task,
      t_status task,
      (case tm_assignee task of None \<Rightarrow> ''Unassigned''
       | Some p \<Rightarrow> if p_full_name p = [] then ''Unassigned'' else p_full_name p),
      (case t_priority task of None \<Rightarrow> ''normal''
       | Some p \<Rightarrow> if p = [] then ''normal'' else p),
      (case t_due_date task of None \<Rightarrow> []
       | Some d \<Rightarrow> if d = [] then [] else toLocaleDateString d),
      (case t_estimated_time_minutes task of None \<Rightarrow> []
       | Some n \<Rightarrow> if n = 0 then [] else formatTime n),
      (case tm_total_tracked_minutes task of None \<Rightarrow> ''0h''
       | Some n \<Rightarrow> if n = 0 then ''0h'' else formatTime n),
      (case tm_comment_count task of None \<Rightarrow> ''0'' | Some n \<Rightarrow> string_of_int n),
      toLocaleDateString (t_created_at task)]"
  by (simp add: exportRow_def string_or_def number_or_def string_of_int_nonempty
      split: option.splits)

text \<open>
  C7. Export maps the view row by row: as many rows as tasks, the row at each index built
  from the task at that index, with the nine columns title, status, assignee, priority,
  due date, estimated time, tracked time, comment count and created date in this order;
  a missing assignee (or an empty name) reads \<open>Unassigned\<close>, an unset priority \<open>normal\<close>,
  an absent due date is empty, a missing or zero estimate is empty, a missing or zero
  tracked time reads \<open>0h\<close> and an absent comment count reads \<open>0\<close>.
\<close>

theorem export_rows:
  "length (exportRows toLocaleDateString filteredTasks) = length filteredTasks \<and>
   (\<forall>i < length filteredTasks.
      exportRows toLocaleDateString filteredTasks ! i =
        [t_title (filteredTasks ! i),
         t_status (filteredTasks ! i),
         (case tm_assignee (filteredTasks ! i) of None \<Rightarrow> ''Unassigned''
          | Some p \<Rightarrow> if p_full_name p = [] then ''Unassigned'' else p_full_name p),
         (case t_priority (filteredTasks ! i) of None \<Rightarrow> ''normal''
          | Some p \<Rightarrow> if p = [] then ''normal'' else p),
         (case t_due_date (filteredTasks ! i) of None \<Rightarrow> []
          | Some d \<Rightarrow> if d = [] then [] else toLocaleDateString d),
         (case t_estimated_time_minutes (filteredTasks ! i) of None \<Rightarrow> []
          | Some n \<Rightarrow> if n = 0 then [] else formatTime n),
         (case tm_total_tracked_minutes (filteredTasks ! i) of None \<Rightarrow> ''0h''
          | Some n \<Rightarrow> if n = 0 then ''0h'' else formatTime n),
         (case tm_comment_count (filteredTasks ! i) of None \<Rightarrow> ''0''
          | Some n \<Rightarrow> string_of_int n),
         toLocaleDateString (t_created_at (filteredTasks ! i))])"
  by (simp add: exportRows_def exportRow_columns)

text \<open>
  The export of a sorted view: two tasks sorted by priority, descending, come out as two
  rows in the order of the view.
\<close>

theorem export_rows_witness:
  "exportRows (\<lambda>s. take 10 s)
     (applyFilters sample_inherited (\<lambda>s. None)
        (no_criteria\<lparr>sort_by := Some priority, sort_order := Some desc\<rparr>)
        [sample_task ''Plan'' None None,
         (sample_task ''Ship'' (Some ''urgent'') (Some ''2024-03-01''))
            \<lparr>t_estimated_time_minutes := Some 90,
             tm_assignee := Some \<lparr>p_full_name = ''Ana'', p_user_id = ''u1''\<rparr>,
             tm_total_tracked_minutes := Some 125, tm_comment_count := Some 3\<rparr>])
   = [[''Ship'', ''todo'', ''Ana'', ''urgent'', ''2024-03-01'', ''1h 30m'', ''2h 5m'', ''3'',
       ''2024-01-01''],
      [''Plan'', ''todo'', ''Unassigned'', ''normal'', [], [], ''0h'', ''0'', ''2024-01-01'']]"
proof -
  have v: "applyFilters sample_inherited (\<lambda>s. None)
        (no_criteria\<lparr>sort_by := Some priority, sort_order := Some desc\<rparr>)
        [sample_task ''Plan'' None None,
         (sample_task ''Ship'' (Some ''urgent'') (Some ''2024-03-01''))
            \<lparr>t_estimated_time_minutes := Some 90,
             tm_assignee := Some \<lparr>p_full_name = ''Ana'', p_user_id = ''u1''\<rparr>,
             tm_total_tracked_minutes := Some 125, tm_comment_count := Some 3\<rparr>]
     = [(sample_task ''Ship'' (Some ''urgent'') (Some ''2024-03-01''))
            \<lparr>t_estimated_time_minutes := Some 90,
             tm_assignee := Some \<lparr>p_full_name = ''Ana'', p_user_id = ''u1''\<rparr>,
             tm_total_tracked_minutes := Some 125, tm_comment_count := Some 3\<rparr>,
        sample_task ''Plan'' None None]"
    by (simp add: applyFilters_def no_criteria_def sample_task_def array_sort_def trim_def
      compareTasks_def sortValue_def priorityValue_def priorityOrder_def js_gt_def)
  have f: "formatTime 90 = ''1h 30m''" "formatTime 125 = ''2h 5m''" "string_of_int 3 = ''3''"
    by (simp_all add: formatTime_def js_rem_def string_of_int_def string_of_nat.simps)
  show ?thesis
    unfolding v
    using export_rows [of "\<lambda>s. take 10 s"
      "[(sample_task ''Ship'' (Some ''urgent'') (Some ''2024-03-01''))
            \<lparr>t_estimated_time_minutes := Some 90,
             tm_assignee := Some \<lparr>p_full_name = ''Ana'', p_user_id = ''u1''\<rparr>,
             tm_total_tracked_minutes := Some 125, tm_comment_count := Some 3\<rparr>,
        sample_task ''Plan'' None None]"]
    by (simp add: f sample_task_def nth_Cons' list_eq_iff_nth_eq All_less_Suc)
qed

section \<open>Properties of JavaScript numbers\<close>

lemma round_even_error: "\<bar>of_int (round_even m) - m\<bar> \<le> 1 / 2"
proof -
  have "of_int \<lfloor>m\<rfloor> \<le> m" "m < of_int \<lfloor>m\<rfloor> + 1" by linarith+
  then show ?thesis by (auto simp: round_even_def Let_def)
qed

lemma round_even_nonneg: "0 \<le> m \<Longrightarrow> 0 \<le> round_even m"
proof -
  assume "0 \<le> m"
  then have "0 \<le> \<lfloor>m\<rfloor>" by simp
  then show ?thesis by (auto simp: round_even_def Let_def)
qed

lemma binade_bounds:
  assumes "0 < x"
  shows "2 powi (binade x) \<le> x \<and> x < 2 powi (binade x + 1)"
proof -
  obtain p q where pq: "quotient_of x = (p, q)" by (cases "quotient_of x")
  then have q: "0 < q" and x: "x = of_int p / of_int q"
    using quotient_of_denom_pos quotient_of_div by blast+
  have p: "0 < p" using assms q x by (simp add: zero_less_divide_iff)
  let ?bp = "bitlen p" and ?bq = "bitlen q"
  have bp: "1 \<le> ?bp" and bq: "1 \<le> ?bq"
    using p q bitlen_eq_zero_iff [of p] bitlen_eq_zero_iff [of q] bitlen_nonneg [of p]
      bitlen_nonneg [of q] by linarith+
  have P: "2 powi (?bp - 1) \<le> (of_int p :: rat)" "(of_int p :: rat) < 2 powi ?bp"
    using bitlen_bounds [OF p] bp by (simp_all add: power_int_def)
  have Q: "2 powi (?bq - 1) \<le> (of_int q :: rat)" "(of_int q :: rat) < 2 powi ?bq"
    using bitlen_bounds [OF q] bq by (simp_all add: power_int_def)
  have qpos: "(0 :: rat) < of_int q" using q by simp
  have lower: "2 powi (?bp - ?bq - 1) \<le> x"
  proof -
    have "(2 :: rat) powi (?bp - ?bq - 1) = 2 powi (?bp - 1) / 2 powi ?bq"
      by (simp add: power_int_diff [symmetric] algebra_simps)
    also have "\<dots> \<le> of_int p / 2 powi ?bq"
      using P(1) by (simp add: divide_right_mono)
    also have "\<dots> \<le> of_int p / of_int q"
      using Q(2) qpos p by (simp add: frac_le)
    finally show ?thesis using x by simp
  qed
  have upper: "x < 2 powi (?bp - ?bq + 1)"
  proof -
    have "x = of_int p / of_int q" by (rule x)
    also have "\<dots> < 2 powi ?bp / of_int q"
      using P(2) qpos by (simp add: divide_strict_right_mono)
    also have "\<dots> \<le> 2 powi ?bp / 2 powi (?bq - 1)"
      using Q(1) by (simp add: frac_le)
    also have "\<dots> = 2 powi (?bp - ?bq + 1)"
      by (simp add: power_int_diff [symmetric] algebra_simps)
    finally show ?thesis .
  qed
  show ?thesis
  proof (cases "2 powi (?bp - ?bq) \<le> x")
    case True
    then have "binade x = ?bp - ?bq" by (simp add: binade_def pq)
    then show ?thesis using True upper by simp
  next
    case False
    then have "binade x = ?bp - ?bq - 1" by (simp add: binade_def pq)
    then show ?thesis using False lower by simp
  qed
qed

lemma round_even_of_int: "round_even (of_int k) = k"
  by (simp add: round_even_def)

lemma fl_minus: "fl (- x) = - fl x"
  by (simp add: fl_def Let_def)

lemma fl_pos:
  "0 < x \<Longrightarrow> fl x = of_int (round_even (x * 2 powi (52 - binade x))) * 2 powi (binade x - 52)"
  by (simp add: fl_def Let_def)

lemma fl_nonneg: "0 \<le> x \<Longrightarrow> 0 \<le> fl x"
proof (cases "x = 0")
  case True
  then show ?thesis by (simp add: fl_def)
next
  case False
  assume "0 \<le> x"
  with False have x: "0 < x" by simp
  then have "0 \<le> x * 2 powi (52 - binade x)" by simp
  then have "0 \<le> round_even (x * 2 powi (52 - binade x))" by (rule round_even_nonneg)
  then show ?thesis using x by (simp add: fl_pos)
qed

text \<open>
  Rounding to binary64 changes a non-negative value by at most the fraction \<open>2^-53\<close> of
  it (half a unit in the last place).
\<close>

lemma fl_error:
  assumes "0 \<le> x"
  shows "\<bar>fl x - x\<bar> \<le> x / 2 ^ 53"
proof (cases "x = 0")
  case True
  then show ?thesis by (simp add: fl_def)
next
  case False
  then have x: "0 < x" using assms by simp
  define e where "e = binade x"
  define s :: rat where "s = 2 powi (e - 52)"
  have s: "0 < s" by (simp add: s_def)
  have inv: "2 powi (52 - e) = 1 / s"
    unfolding s_def using power_int_minus [of "2 :: rat" "e - 52"] by (simp add: field_simps)
  define m where "m = x / s"
  have fl: "fl x = of_int (round_even m) * s"
    using x by (simp add: fl_pos e_def [symmetric] inv m_def s_def [symmetric])
  have xm: "x = m * s" using s by (simp add: m_def)
  have "fl x - x = (of_int (round_even m) - m) * s"
    unfolding fl by (subst xm) (simp add: left_diff_distrib)
  then have "\<bar>fl x - x\<bar> = \<bar>of_int (round_even m) - m\<bar> * s"
    using s by (simp add: abs_mult)
  also have "\<dots> \<le> (1 / 2) * s"
    using round_even_error [of m] s by (simp add: mult_right_mono)
  also have "\<dots> = 2 powi e / 2 ^ 53"
  proof -
    have "s = 2 powi e / 2 powi 52"
      unfolding s_def by (simp add: power_int_diff)
    then show ?thesis by simp
  qed
  also have "\<dots> \<le> x / 2 ^ 53"
    using binade_bounds [OF x] by (simp add: e_def divide_right_mono)
  finally show ?thesis .
qed

text \<open>An integer of magnitude up to \<open>2^53\<close> is a binary64 number: rounding keeps it.\<close>

lemma fl_exact_pos:
  assumes "0 < n" and "n \<le> 2 ^ 53"
  shows "fl (of_int n) = of_int n"
proof -
  define x :: rat where "x = of_int n"
  have "(of_int n :: rat) \<le> of_int (2 ^ 53)"
    using assms(2) by (simp only: of_int_le_iff)
  then have x: "0 < x" "x \<le> 2 ^ 53"
    using assms(1) by (simp_all add: x_def)
  define e where "e = binade x"
  have lo: "2 powi e \<le> x" and hi: "x < 2 powi (e + 1)"
    using binade_bounds [OF x(1)] by (simp_all add: e_def)
  have e53: "e \<le> 53"
  proof (rule ccontr)
    assume "\<not> e \<le> 53"
    then have "54 \<le> e" by simp
    then have "(2 :: rat) powi 54 \<le> 2 powi e"
      by (intro power_int_increasing) simp_all
    then show False using lo x(2) by simp
  qed
  have "\<exists>k :: int. x * 2 powi (52 - e) = of_int k"
  proof (cases "e \<le> 52")
    case True
    then have "(2 :: rat) powi (52 - e) = of_int (2 ^ nat (52 - e))"
      by (simp add: power_int_def)
    then have "x * 2 powi (52 - e) = of_int (n * 2 ^ nat (52 - e))"
      by (simp add: x_def)
    then show ?thesis by blast
  next
    case False
    then have e: "e = 53" using e53 by simp
    then have "x = 2 ^ 53" using lo x(2) by simp
    then have "x * 2 powi (52 - e) = of_int (2 ^ 52)"
      using e by (simp add: power_int_minus)
    then show ?thesis by blast
  qed
  then obtain k :: int where k: "x * 2 powi (52 - e) = of_int k" by blast
  have "fl x = of_int k * 2 powi (e - 52)"
    using x(1) by (simp add: fl_pos e_def [symmetric] k round_even_of_int)
  also have "\<dots> = x * (2 powi (52 - e) * 2 powi (e - 52))"
    by (simp add: k [symmetric])
  also have "2 powi (52 - e) * 2 powi (e - 52) = (1 :: rat)"
    by (simp add: power_int_add [symmetric])
  finally show ?thesis by (simp add: x_def)
qed

lemma fl_exact:
  assumes "\<bar>n\<bar> \<le> 2 ^ 53"
  shows "fl (of_int n) = of_int n"
proof -
  consider "n = 0" | "0 < n" | "n < 0" by linarith
  then show ?thesis
  proof cases
    case 1
    then show ?thesis by (simp add: fl_def)
  next
    case 2
    then show ?thesis using assms by (simp add: fl_exact_pos)
  next
    case 3
    then have "fl (of_int (- n)) = of_int (- n)" using assms by (intro fl_exact_pos) simp_all
    then show ?thesis using fl_minus [of "of_int n"] by simp
  qed
qed

lemma js_add_exact:
  "\<bar>a + b\<bar> \<le> 2 ^ 53 \<Longrightarrow> js_add (of_int a) (of_int b) = of_int (a + b)"
  using fl_exact [of "a + b"] by (simp add: js_add_def)

section \<open>Properties of the progress percentage\<close>

text \<open>
  The product \<open>(c / t) * 100\<close> computed in binary64 is within \<open>2^-44\<close> of the exact
  percentage.
\<close>

lemma percent_error:
  assumes "c \<le> t" and "0 < t"
  shows "\<bar>js_mul (js_div (of_nat c) (of_nat t)) 100 - 100 * of_nat c / of_nat t\<bar> \<le> 1 / 2 ^ 44"
    and "0 \<le> js_mul (js_div (of_nat c) (of_nat t)) 100"
proof -
  define q :: rat where "q = of_nat c / of_nat t"
  define q1 where "q1 = fl q"
  define y where "y = fl (q1 * 100)"
  have q: "0 \<le> q" "q \<le> 1" using assms by (simp_all add: q_def)
  have e1: "\<bar>q1 - q\<bar> \<le> q / 2 ^ 53" unfolding q1_def using q(1) by (rule fl_error)
  have q1: "0 \<le> q1" unfolding q1_def using q(1) by (rule fl_nonneg)
  have "q / 2 ^ 53 \<le> 1 / 2 ^ 53" using q(2) by (simp add: divide_right_mono)
  with e1 have e1': "\<bar>q1 - q\<bar> \<le> 1 / 2 ^ 53" by linarith
  have "(1 :: rat) / 2 ^ 53 \<le> 1" by simp
  with e1' have q12: "q1 \<le> 2" using q(2) by linarith
  have e2: "\<bar>y - q1 * 100\<bar> \<le> (q1 * 100) / 2 ^ 53"
    unfolding y_def using q1 by (intro fl_error) simp
  have "(q1 * 100) / 2 ^ 53 \<le> 200 / 2 ^ 53" using q12 by (simp add: divide_right_mono)
  with e2 have e2': "\<bar>y - q1 * 100\<bar> \<le> 200 / 2 ^ 53" by linarith
  have "100 * q1 - 100 * q = 100 * (q1 - q)" by (simp add: algebra_simps)
  then have "\<bar>100 * q1 - 100 * q\<bar> = 100 * \<bar>q1 - q\<bar>"
    by (simp only: abs_mult)
  then have e3: "\<bar>100 * q1 - 100 * q\<bar> \<le> 100 * (1 / 2 ^ 53)" using e1' by linarith
  have "y - 100 * q = (y - q1 * 100) + (100 * q1 - 100 * q)" by simp
  then have "\<bar>y - 100 * q\<bar> \<le> \<bar>y - q1 * 100\<bar> + \<bar>100 * q1 - 100 * q\<bar>"
    by (metis abs_triangle_ineq)
  also have "\<dots> \<le> 200 / 2 ^ 53 + 100 * (1 / 2 ^ 53)" using e3 e2' by linarith
  also have "\<dots> \<le> 1 / 2 ^ 44" by simp
  finally have "\<bar>y - 100 * q\<bar> \<le> 1 / 2 ^ 44" .
  then show "\<bar>js_mul (js_div (of_nat c) (of_nat t)) 100 - 100 * of_nat c / of_nat t\<bar> \<le> 1 / 2 ^ 44"
    by (simp add: js_mul_def js_div_def y_def q1_def q_def)
  have "0 \<le> q1 * 100" using q1 by simp
  then have "0 \<le> fl (q1 * 100)" by (rule fl_nonneg)
  then show "0 \<le> js_mul (js_div (of_nat c) (of_nat t)) 100"
    by (simp add: js_mul_def js_div_def q1_def q_def)
qed

lemma halfway_iff:
  assumes "0 < t"
  shows "halfway c t \<longleftrightarrow> (\<exists>n :: int. 100 * of_nat c / (of_nat t :: rat) = of_int n + 1 / 2)"
proof
  assume "halfway c t"
  then obtain m where m: "200 * c + t = 2 * t * m" by (auto simp: halfway_def)
  then have "(of_nat (200 * c + t) :: rat) = of_nat (2 * t * m)" by simp
  then have "100 * of_nat c / (of_nat t :: rat) = of_int (int m - 1) + 1 / 2"
    using assms by (simp add: field_simps)
  then show "\<exists>n :: int. 100 * of_nat c / (of_nat t :: rat) = of_int n + 1 / 2" by blast
next
  assume "\<exists>n :: int. 100 * of_nat c / (of_nat t :: rat) = of_int n + 1 / 2"
  then obtain n :: int where n: "100 * of_nat c / (of_nat t :: rat) = of_int n + 1 / 2" by blast
  then have "(200 * of_nat c + of_nat t :: rat) = 2 * of_nat t * of_int (n + 1)"
    using assms by (simp add: field_simps)
  then have "(of_int (200 * int c + int t) :: rat) = of_int (2 * int t * (n + 1))" by simp
  then have e: "200 * int c + int t = 2 * int t * (n + 1)" by (simp only: of_int_eq_iff)
  then have "int (2 * t) dvd int (200 * c + t)" by simp
  then show "halfway c t" unfolding halfway_def by (simp only: int_dvd_int_iff)
qed

lemma progressPercentage_bounds:
  assumes "c \<le> t"
  shows "0 \<le> progressPercentage c t \<and> progressPercentage c t \<le> 100"
proof (cases "0 < t")
  case False
  then show ?thesis by (simp add: progressPercentage_def)
next
  case True
  let ?y = "js_mul (js_div (of_nat c) (of_nat t)) 100"
  have "(of_nat c :: rat) \<le> of_nat t" using assms by simp
  then have E: "100 * of_nat c / (of_nat t :: rat) \<le> 100"
    using True by (simp add: divide_le_eq)
  have "(1 :: rat) / 2 ^ 44 < 1 / 2" by simp
  with percent_error [OF assms True] E have "0 \<le> ?y" "?y + 1 / 2 < 101" by linarith+
  then have "0 \<le> \<lfloor>?y + 1 / 2\<rfloor>" "\<lfloor>?y + 1 / 2\<rfloor> < 101"
    by (simp_all add: floor_less_iff)
  then show ?thesis using True by (simp add: progressPercentage_def Math_round_def)
qed

lemma progressPercentage_near:
  assumes "c \<le> t" and "0 < t" and "t < 2 ^ 43"
  shows "\<not> halfway c t \<Longrightarrow> progressPercentage c t = exactPercentage c t"
    and "halfway c t \<Longrightarrow> progressPercentage c t = exactPercentage c t \<or>
           progressPercentage c t = exactPercentage c t - 1"
proof -
  let ?y = "js_mul (js_div (of_nat c) (of_nat t)) 100"
  define E :: rat where "E = 100 * of_nat c / of_nat t"
  define k :: int where "k = 200 * int c + int t"
  define n :: int where "n = k div (2 * int t)"
  define r :: int where "r = k mod (2 * int t)"
  define D :: rat where "D = of_int (2 * int t)"
  have D: "0 < D" "D = 2 * of_nat t" using assms(2) by (simp_all add: D_def)
  have Ek: "E + 1 / 2 = of_int k / D"
    using assms(2) by (simp add: E_def k_def D(2) field_simps)
  have "exactPercentage c t = \<lfloor>E + 1 / 2\<rfloor>"
    using assms(2) by (simp add: exactPercentage_def E_def)
  also have "\<dots> = n"
    unfolding Ek D_def n_def by (rule floor_divide_of_int_eq)
  finally have n: "exactPercentage c t = n" .
  have r: "0 \<le> r" "r < 2 * int t" using assms(2) by (simp_all add: r_def)
  have k: "k = 2 * int t * n + r" by (simp add: n_def r_def)
  have "(of_int k :: rat) = of_int (2 * int t * n + r)" using k by simp
  also have "\<dots> = D * of_int n + of_int r" by (simp add: D_def)
  finally have "of_int k / D = of_int n + of_int r / D"
    using D(1) by (simp add: field_simps)
  then have En: "E + 1 / 2 = of_int n + of_int r / D" using Ek by simp
  have err: "\<bar>?y - E\<bar> \<le> 1 / 2 ^ 44"
    using percent_error(1) [OF assms(1,2)] by (simp add: E_def)
  have hw: "halfway c t \<longleftrightarrow> r = 0"
  proof -
    have "halfway c t \<longleftrightarrow> int (2 * t) dvd int (200 * c + t)"
      unfolding halfway_def by (simp only: int_dvd_int_iff)
    also have "\<dots> \<longleftrightarrow> r = 0" by (simp add: r_def k_def dvd_eq_mod_eq_0)
    finally show ?thesis .
  qed
  have small: "(1 :: rat) / 2 ^ 44 < 1 / D"
  proof -
    have "2 * int t < 2 ^ 44" using assms(3) by simp
    then have "(of_int (2 * int t) :: rat) < of_int (2 ^ 44)" by (simp only: of_int_less_iff)
    then have "D < 2 ^ 44" by (simp add: D_def)
    then show ?thesis using D(1) by (simp add: frac_less2)
  qed
  have pp: "progressPercentage c t = \<lfloor>?y + 1 / 2\<rfloor>"
    using assms(2) by (simp add: progressPercentage_def Math_round_def)
  {
    assume "\<not> halfway c t"
    then have "1 \<le> r" "r + 1 \<le> 2 * int t" using hw r by linarith+
    then have "(of_int 1 :: rat) \<le> of_int r" "(of_int (r + 1) :: rat) \<le> of_int (2 * int t)"
      by (simp_all only: of_int_le_iff)
    then have "1 \<le> (of_int r :: rat)" "(of_int r :: rat) \<le> D - 1"
      by (simp_all add: D_def)
    then have "1 / D \<le> of_int r / D" "of_int r / D \<le> (D - 1) / D"
      using D(1) by (simp_all add: divide_right_mono)
    moreover have "(D - 1) / D = 1 - 1 / D" using D(1) by (simp add: field_simps)
    ultimately have "of_int n + 1 / D \<le> E + 1 / 2" "E + 1 / 2 \<le> of_int n + 1 - 1 / D"
      using En by simp_all
    with small err have "of_int n \<le> ?y + 1 / 2" "?y + 1 / 2 < of_int n + 1"
      by linarith+
    then have "\<lfloor>?y + 1 / 2\<rfloor> = n" by (simp add: floor_eq_iff)
    then show "progressPercentage c t = exactPercentage c t" using pp n by simp
  }
  {
    assume "halfway c t"
    then have "r = 0" using hw by simp
    then have "E + 1 / 2 = of_int n" using En by simp
    moreover have "(1 :: rat) / 2 ^ 44 < 1" by simp
    ultimately have "of_int n - 1 \<le> ?y + 1 / 2" "?y + 1 / 2 < of_int n + 1"
      using err by linarith+
    then have "of_int (n - 1) \<le> ?y + 1 / 2" "?y + 1 / 2 < of_int (n + 1)"
      by simp_all
    then have "n - 1 \<le> \<lfloor>?y + 1 / 2\<rfloor>" "\<lfloor>?y + 1 / 2\<rfloor> < n + 1"
      by (simp_all only: le_floor_iff floor_less_iff)
    then show "progressPercentage c t = exactPercentage c t \<or>
           progressPercentage c t = exactPercentage c t - 1"
      using pp n by auto
  }
qed

lemma project_tasks_counts:
  "length (project_tasks c t) = t"
  "length (filter (\<lambda>t. t_status t = ''complete'') (project_tasks c t)) = min c t"
proof -
  show "length (project_tasks c t) = t" by (simp add: project_tasks_def)
  have "length (filter (\<lambda>i. i < c) [0..<t]) = min c t"
    by (induction t) auto
  then show "length (filter (\<lambda>t. t_status t = ''complete'') (project_tasks c t)) = min c t"
    by (simp add: project_tasks_def filter_map comp_def)
qed

text \<open>
  The progress of a project without tasks is 0, and the progress is always an integer
  from 0 to 100. For a non-empty task list (an array holds fewer than \<open>2^32\<close>
  elements) the progress is the exact percentage, rounded with a half going up, whenever
  the exact percentage does not lie halfway between two integers; when it does, the
  progress is that rounded value or the integer below it.
\<close>

lemma projectProgress_range:
  "projectProgress [] = 0"
  "0 \<le> projectProgress tasks \<and> projectProgress tasks \<le> 100"
proof -
  let ?c = "length (filter (\<lambda>t. t_status t = ''complete'') tasks)"
  have "projectProgress tasks = progressPercentage ?c (length tasks)"
    by (simp add: projectProgress_def)
  then show "0 \<le> projectProgress tasks \<and> projectProgress tasks \<le> 100"
    using progressPercentage_bounds [OF length_filter_le] by simp
  show "projectProgress [] = 0"
    by (simp add: projectProgress_def progressPercentage_def)
qed

lemma projectProgress_exact:
  assumes "tasks \<noteq> []" and "length tasks < 2 ^ 32"
  shows "\<not> halfway (length (filter (\<lambda>t. t_status t = ''complete'') tasks)) (length tasks) \<Longrightarrow>
         projectProgress tasks =
           exactPercentage (length (filter (\<lambda>t. t_status t = ''complete'') tasks)) (length tasks)"
    and "halfway (length (filter (\<lambda>t. t_status t = ''complete'') tasks)) (length tasks) \<Longrightarrow>
         projectProgress tasks =
           exactPercentage (length (filter (\<lambda>t. t_status t = ''complete'') tasks)) (length tasks) \<or>
         projectProgress tasks =
           exactPercentage (length (filter (\<lambda>t. t_status t = ''complete'') tasks)) (length tasks) - 1"
proof -
  let ?c = "length (filter (\<lambda>t. t_status t = ''complete'') tasks)"
  let ?t = "length tasks"
  have ct: "?c \<le> ?t" by (rule length_filter_le)
  have p: "projectProgress tasks = progressPercentage ?c ?t"
    by (simp add: projectProgress_def)
  have t: "0 < ?t" using assms(1) by simp
  have t': "?t < 2 ^ 43" using assms(2) by (rule less_trans) simp
  show "\<not> halfway ?c ?t \<Longrightarrow> projectProgress tasks = exactPercentage ?c ?t"
    unfolding p by (rule progressPercentage_near(1) [OF ct t t'])
  show "halfway ?c ?t \<Longrightarrow> projectProgress tasks = exactPercentage ?c ?t \<or>
         projectProgress tasks = exactPercentage ?c ?t - 1"
    unfolding p by (rule progressPercentage_near(2) [OF ct t t'])
qed

lemma projectProgress_samples:
  "projectProgress (project_tasks 0 3) = 0"
  "projectProgress (project_tasks 1 3) = 33"
  "projectProgress (project_tasks 2 3) = 67"
  "projectProgress (project_tasks 3 3) = 100"
  "projectProgress (project_tasks 1 8) = 13"
  "projectProgress (project_tasks 1 2) = 50"
proof -
  have "progressPercentage 0 3 = 0" "progressPercentage 1 3 = 33" "progressPercentage 2 3 = 67"
    "progressPercentage 3 3 = 100" "progressPercentage 1 8 = 13" "progressPercentage 1 2 = 50"
    by code_simp+
  then show "projectProgress (project_tasks 0 3) = 0"
    "projectProgress (project_tasks 1 3) = 33"
    "projectProgress (project_tasks 2 3) = 67"
    "projectProgress (project_tasks 3 3) = 100"
    "projectProgress (project_tasks 1 8) = 13"
    "projectProgress (project_tasks 1 2) = 50"
    by (simp_all add: projectProgress_def project_tasks_counts)
qed

text \<open>
  C3. The progress of a project is \<open>round(100 * completedCount / totalCount)\<close>, an
  integer from 0 to 100, and 0 for a project without tasks. The code agrees for no
  tasks (0) and for one complete task of three (33), but not for 23 complete tasks of
  40: the exact percentage is 57.5, which rounds to 58, while the code returns 57. It
  evaluates \<open>(completed / total) * 100\<close>: the quotient \<open>23 / 40\<close> is rounded to binary64,
  and its product with 100 comes out just below 57.5. Evaluated in the order of the
  formula, \<open>(100 * completed) / total\<close>, the same operations give 57.5 and 58.
\<close>

theorem project_progress_halfway:
  "projectProgress [] = 0 \<and>
   projectProgress (project_tasks 1 3) = 33 \<and>
   projectProgress (project_tasks 23 40) = 57 \<and>
   exactPercentage 23 40 = 58 \<and>
   (100 * 23 / 40 :: rat) = 575 / 10 \<and>
   js_mul (js_div 23 40) 100 = 8092405580431359 / 140737488355328 \<and>
   (8092405580431359 / 140737488355328 :: rat) < 575 / 10 \<and>
   js_div (js_mul 100 23) 40 = 575 / 10 \<and>
   Math_round (js_div (js_mul 100 23) 40) = 58"
proof -
  have "progressPercentage 23 40 = 57" "progressPercentage 1 3 = 33" by code_simp+
  then have "projectProgress (project_tasks 23 40) = 57" "projectProgress (project_tasks 1 3) = 33"
    by (simp_all add: projectProgress_def project_tasks_counts)
  moreover have "projectProgress [] = 0"
    by (simp add: projectProgress_def progressPercentage_def)
  moreover have "exactPercentage 23 40 = 58" by code_simp
  moreover have "js_mul (js_div 23 40) 100 = 8092405580431359 / 140737488355328"
    by code_simp
  moreover have "js_div (js_mul 100 23) 40 = 575 / 10" by code_simp
  moreover have "Math_round (js_div (js_mul 100 23) 40) = 58" by code_simp
  ultimately show ?thesis by simp
qed

section \<open>Properties of the rollups\<close>

lemma minutesSize_nonneg: "0 \<le> minutesSize es"
  by (induction es) (simp_all add: minutesSize_def)

text \<open>
  While the magnitudes of the running total and of the minutes still to be added stay
  within \<open>2^53\<close>, every addition of the reduction is exact.
\<close>

lemma foldl_js_add_exact:
  "\<bar>a\<bar> + minutesSize es \<le> 2 ^ 53 \<Longrightarrow>
   foldl (\<lambda>sum entry. js_add sum (number_of (e_minutes entry))) (of_int a) es
     = of_int (a + minutesSum es)"
proof (induction es arbitrary: a)
  case Nil
  then show ?case by (simp add: minutesSum_def)
next
  case (Cons e es)
  have size: "minutesSize (e # es) = \<bar>e_minutes e\<bar> + minutesSize es"
    by (simp add: minutesSize_def)
  have sum: "minutesSum (e # es) = e_minutes e + minutesSum es"
    by (simp add: minutesSum_def)
  have n: "0 \<le> minutesSize es" by (rule minutesSize_nonneg)
  have "\<bar>e_minutes e\<bar> \<le> 2 ^ 53" using Cons.prems size n by linarith
  then have m: "number_of (e_minutes e) = of_int (e_minutes e)"
    unfolding number_of_def by (rule fl_exact)
  have "\<bar>a + e_minutes e\<bar> \<le> 2 ^ 53" using Cons.prems size n by linarith
  then have s: "js_add (of_int a) (of_int (e_minutes e)) = of_int (a + e_minutes e)"
    by (rule js_add_exact)
  have "\<bar>a + e_minutes e\<bar> + minutesSize es \<le> 2 ^ 53" using Cons.prems size by linarith
  from Cons.IH [OF this] show ?case
    by (simp add: m s sum add.assoc)
qed

lemma totalTrackedMinutes_exact:
  assumes "minutesSize es \<le> 2 ^ 53"
  shows "totalTrackedMinutes (Some es) = of_int (minutesSum es)"
proof -
  have "foldl (\<lambda>sum entry. js_add sum (number_of (e_minutes entry))) (of_int 0) es
          = of_int (0 + minutesSum es)"
    using assms by (intro foldl_js_add_exact) simp
  then show ?thesis by (simp add: totalTrackedMinutes_def)
qed

text \<open>
  C8 (as stated) fails for large totals: the additions are made in JavaScript numbers.
  For three entries of one task with \<open>2^53\<close>, 1 and 1 minutes the sum is \<open>2^53 + 2\<close>, but
  each addition of 1 to \<open>2^53\<close> is rounded back to \<open>2^53\<close>, and the total is \<open>2^53\<close>.
\<close>

theorem tracked_minutes_counterexample:
  "totalTrackedMinutes (Some large_entries) = 9007199254740992 \<and>
   taskTrackedMinutes large_entries ''t1'' = 9007199254740992 \<and>
   minutesSum large_entries = 9007199254740994"
proof -
  have "totalTrackedMinutes (Some large_entries) = 9007199254740992" by code_simp
  moreover have "taskTrackedMinutes large_entries ''t1'' = 9007199254740992" by code_simp
  moreover have "minutesSum large_entries = 9007199254740994"
    by (simp add: minutesSum_def large_entries_def)
  ultimately show ?thesis by simp
qed

text \<open>
  C8 (as amended). The tracked minutes of a set of time entries whose minutes have
  magnitudes that add up to at most \<open>2^53\<close> (for positive minutes: whose sum is at most
  \<open>2^53\<close>) are the sum of their minutes, each entry of the collection counted once; for
  no entries, and for a query without data, the total is 0. The rollup of a task sums
  the entries of that task, the rollup of a project the entries of its tasks.
\<close>

theorem tracked_minutes_sum:
  "(minutesSize es \<le> 2 ^ 53 \<longrightarrow>
      totalTrackedMinutes (Some es) = of_int (minutesSum es) \<and>
      totalTrackedMinutes (Some es) = of_int (\<Sum>e \<in># mset es. e_minutes e)) \<and>
   totalTrackedMinutes (Some []) = 0 \<and>
   totalTrackedMinutes None = 0 \<and>
   (minutesSize (filter (\<lambda>e. e_task_id e = taskId) time_entries) \<le> 2 ^ 53 \<longrightarrow>
      taskTrackedMinutes time_entries taskId =
        of_int (minutesSum (filter (\<lambda>e. e_task_id e = taskId) time_entries))) \<and>
   (minutesSize (filter (\<lambda>e. e_task_id e \<in> t_id ` set tasks) time_entries) \<le> 2 ^ 53 \<longrightarrow>
      projectTrackedMinutes time_entries tasks =
        of_int (minutesSum (filter (\<lambda>e. e_task_id e \<in> t_id ` set tasks) time_entries)))"
proof -
  have "minutesSum es = (\<Sum>e \<in># mset es. e_minutes e)"
    unfolding minutesSum_def by (metis mset_map sum_mset_sum_list)
  then have a: "minutesSize es \<le> 2 ^ 53 \<longrightarrow>
      totalTrackedMinutes (Some es) = of_int (minutesSum es) \<and>
      totalTrackedMinutes (Some es) = of_int (\<Sum>e \<in># mset es. e_minutes e)"
    using totalTrackedMinutes_exact [of es] by simp
  have b: "totalTrackedMinutes (Some []) = 0" "totalTrackedMinutes None = 0"
    by (simp_all add: totalTrackedMinutes_def)
  have c: "minutesSize (filter (\<lambda>e. e_task_id e = taskId) time_entries) \<le> 2 ^ 53 \<longrightarrow>
      taskTrackedMinutes time_entries taskId =
        of_int (minutesSum (filter (\<lambda>e. e_task_id e = taskId) time_entries))"
    unfolding taskTrackedMinutes_def by (simp add: totalTrackedMinutes_exact)
  have d: "minutesSize (filter (\<lambda>e. e_task_id e \<in> t_id ` set tasks) time_entries) \<le> 2 ^ 53 \<longrightarrow>
      projectTrackedMinutes time_entries tasks =
        of_int (minutesSum (filter (\<lambda>e. e_task_id e \<in> t_id ` set tasks) time_entries))"
    unfolding projectTrackedMinutes_def by (simp add: totalTrackedMinutes_exact)
  show ?thesis using a b c d by blast
qed

theorem tracked_minutes_sum_witness:
  "minutesSize [sample_entry, sample_entry\<lparr>e_id := ''e2'', e_minutes := 30\<rparr>,
                sample_entry\<lparr>e_id := ''e3'', e_task_id := ''t2'', e_minutes := 20\<rparr>] \<le> 2 ^ 53 \<and>
   totalTrackedMinutes (Some [sample_entry, sample_entry\<lparr>e_id := ''e2'', e_minutes := 30\<rparr>,
                sample_entry\<lparr>e_id := ''e3'', e_task_id := ''t2'', e_minutes := 20\<rparr>]) = 95 \<and>
   taskTrackedMinutes [sample_entry, sample_entry\<lparr>e_id := ''e2'', e_minutes := 30\<rparr>,
                sample_entry\<lparr>e_id := ''e3'', e_task_id := ''t2'', e_minutes := 20\<rparr>] ''t1'' = 75 \<and>
   projectTrackedMinutes [sample_entry, sample_entry\<lparr>e_id := ''e2'', e_minutes := 30\<rparr>,
                sample_entry\<lparr>e_id := ''e3'', e_task_id := ''t2'', e_minutes := 20\<rparr>]
     [done_task ''t2'' None ''2024-04-01T09:00:00.000Z''] = 20"
  using tracked_minutes_sum
    [of "[sample_entry, sample_entry\<lparr>e_id := ''e2'', e_minutes := 30\<rparr>,
          sample_entry\<lparr>e_id := ''e3'', e_task_id := ''t2'', e_minutes := 20\<rparr>]"
        "''t1''"
        "[sample_entry, sample_entry\<lparr>e_id := ''e2'', e_minutes := 30\<rparr>,
          sample_entry\<lparr>e_id := ''e3'', e_task_id := ''t2'', e_minutes := 20\<rparr>]"
        "[done_task ''t2'' None ''2024-04-01T09:00:00.000Z'']"]
  by (simp add: minutesSize_def minutesSum_def sample_entry_def done_task_def)

lemma set_set_add: "set (set_add s x) = insert x (set s)"
  by (auto simp: set_add_def)

lemma distinct_set_add: "distinct s \<Longrightarrow> distinct (set_add s x)"
  by (simp add: set_add_def)

lemma foldl_set_add:
  "distinct s \<Longrightarrow> distinct (foldl set_add s xs) \<and> set (foldl set_add s xs) = set s \<union> set xs"
  by (induction xs arbitrary: s) (auto simp: set_set_add distinct_set_add)

lemma foldl_add_assignee:
  "distinct s \<Longrightarrow>
   distinct (foldl (\<lambda>s t. if truthy (t_assignee_id t) then set_add s (the (t_assignee_id t))
                            else s) s ts) \<and>
   set (foldl (\<lambda>s t. if truthy (t_assignee_id t) then set_add s (the (t_assignee_id t))
                       else s) s ts)
     = set s \<union> {u. \<exists>t \<in> set ts. t_assignee_id t = Some u \<and> u \<noteq> []}"
proof (induction ts arbitrary: s)
  case Nil
  then show ?case by simp
next
  case (Cons t ts)
  show ?case
  proof (cases "t_assignee_id t")
    case None
    then show ?thesis using Cons by auto
  next
    case (Some u)
    show ?thesis
    proof (cases "u = []")
      case True
      then show ?thesis using Cons Some by auto
    next
      case False
      have "distinct (set_add s u)" using Cons.prems by (rule distinct_set_add)
      from Cons.IH [OF this] show ?thesis
        using Some False by (auto simp: set_set_add)
    qed
  qed
qed

text \<open>
  The cutoff lies thirty days of twenty-four hours before the clock, moved by the change
  of the zone's offset between the two local times.
\<close>

lemma thirtyDaysAgo_shift:
  "thirtyDaysAgo tz now = now + zone_shift tz now - 30 * 86400000"
  by (simp add: thirtyDaysAgo_def zone_shift_def msPerDay_def Let_def)

lemma activeUserIds_distinct_set:
  "distinct (activeUserIds tz instant now es ts) \<and>
   set (activeUserIds tz instant now es ts) =
     trackedWithin instant 30 (now + zone_shift tz now) es \<union>
     completedWithin instant 30 (now + zone_shift tz now) ts"
proof -
  let ?s = "new_Set (map e_user_id
              (filter (\<lambda>e. instant (e_created_at e) \<ge> thirtyDaysAgo tz now) es))"
  have s: "distinct ?s \<and> set ?s = trackedWithin instant 30 (now + zone_shift tz now) es"
    using foldl_set_add [of "[]"]
    by (auto simp: new_Set_def trackedWithin_def thirtyDaysAgo_shift)
  then have "distinct ?s" by simp
  from foldl_add_assignee [OF this,
      of "filter (\<lambda>t. t_status t = ''complete'' \<and>
                       instant (t_updated_at t) \<ge> thirtyDaysAgo tz now) ts"]
  show ?thesis
    using s by (auto simp: activeUserIds_def completedWithin_def thirtyDaysAgo_shift)
qed

text \<open>
  C9 (as stated) fails where the offset of the process's time zone changes within the
  window. The cutoff is set with \<open>setDate(getDate() - 30)\<close>, thirty calendar days back in
  local time. In a zone that went from one hour to two hours ahead of UTC on 31 March
  2024, at 15 April 2024 12:00 UTC the cutoff is 16 March 13:00 UTC, thirty days less
  one hour before the clock. The member of a time entry created on 16 March 12:30 UTC,
  which is within thirty days of the clock, is not counted.
\<close>

theorem active_members_counterexample:
  "active_members sample_zone sample_instant sample_now [sample_entry] ([] :: task list) = 0 \<and>
   card (trackedWithin sample_instant 30 sample_now [sample_entry] \<union>
         completedWithin sample_instant 30 sample_now ([] :: task list)) = 1 \<and>
   sample_now - 30 * 86400000 \<le> sample_instant (e_created_at sample_entry) \<and>
   sample_instant (e_created_at sample_entry) < thirtyDaysAgo sample_zone sample_now"
proof -
  have "active_members sample_zone sample_instant sample_now [sample_entry] ([] :: task list) = 0"
    by (simp add: active_members_def activeUserIds_def thirtyDaysAgo_def msPerDay_def
        sample_zone_def sample_instant_def sample_now_def sample_entry_def new_Set_def Let_def)
  moreover have "trackedWithin sample_instant 30 sample_now [sample_entry] = {''u1''}"
    by (auto simp: trackedWithin_def sample_instant_def sample_now_def sample_entry_def)
  moreover have "completedWithin sample_instant 30 sample_now ([] :: task list) = {}"
    by (simp add: completedWithin_def)
  moreover have "sample_now - 30 * 86400000 \<le> sample_instant (e_created_at sample_entry)"
    "sample_instant (e_created_at sample_entry) < thirtyDaysAgo sample_zone sample_now"
    by (simp_all add: thirtyDaysAgo_def msPerDay_def sample_zone_def sample_instant_def
        sample_now_def sample_entry_def Let_def)
  ultimately show ?thesis by simp
qed

text \<open>
  C9 (as amended). The active-member count is the size of the union of the members who
  produced a time entry within the window and the members who completed a task with an
  update timestamp within the window, where the window is fixed and reaches back thirty
  calendar days in the local time of the process: thirty days of twenty-four hours
  before the evaluation instant, moved by the change of the zone's offset from UTC
  between the two local times. A member in both sets is counted once. Where the offset
  is the same at both ends, as in UTC, the window is the thirty days of twenty-four
  hours before the evaluation instant.
\<close>

theorem active_members_union:
  "active_members tz instant now time_entries tasks =
     card (trackedWithin instant 30 (now + zone_shift tz now) time_entries \<union>
           completedWithin instant 30 (now + zone_shift tz now) tasks) \<and>
   active_members tz instant now time_entries tasks +
     card (trackedWithin instant 30 (now + zone_shift tz now) time_entries \<inter>
           completedWithin instant 30 (now + zone_shift tz now) tasks) =
     card (trackedWithin instant 30 (now + zone_shift tz now) time_entries) +
     card (completedWithin instant 30 (now + zone_shift tz now) tasks) \<and>
   (zone_shift tz now = 0 \<longrightarrow>
      active_members tz instant now time_entries tasks =
        card (trackedWithin instant 30 now time_entries \<union>
              completedWithin instant 30 now tasks))"
proof -
  let ?A = "trackedWithin instant 30 (now + zone_shift tz now) time_entries"
  let ?B = "completedWithin instant 30 (now + zone_shift tz now) tasks"
  have d: "distinct (activeUserIds tz instant now time_entries tasks)"
    and s: "set (activeUserIds tz instant now time_entries tasks) = ?A \<union> ?B"
    using activeUserIds_distinct_set by blast+
  have c: "active_members tz instant now time_entries tasks = card (?A \<union> ?B)"
    using distinct_card [OF d] s by (simp add: active_members_def)
  have "finite (?A \<union> ?B)" using s by (metis List.finite_set)
  then have "finite ?A" "finite ?B" by simp_all
  then have "card (?A \<union> ?B) + card (?A \<inter> ?B) = card ?A + card ?B"
    by (rule card_Un_Int [symmetric])
  with c show ?thesis by simp
qed

theorem active_members_union_witness:
  "zone_shift utc_zone sample_now = 0 \<and>
   active_members utc_zone sample_instant sample_now [sample_entry]
       [done_task ''t1'' (Some ''u1'') ''2024-04-01T09:00:00.000Z'',
        done_task ''t2'' (Some ''u2'') ''2024-04-01T09:00:00.000Z'',
        done_task ''t3'' (Some ''u3'') ''2024-01-01T00:00:00.000Z''] =
     card (trackedWithin sample_instant 30 sample_now [sample_entry] \<union>
           completedWithin sample_instant 30 sample_now
             [done_task ''t1'' (Some ''u1'') ''2024-04-01T09:00:00.000Z'',
              done_task ''t2'' (Some ''u2'') ''2024-04-01T09:00:00.000Z'',
              done_task ''t3'' (Some ''u3'') ''2024-01-01T00:00:00.000Z'']) \<and>
   active_members utc_zone sample_instant sample_now [sample_entry]
       [done_task ''t1'' (Some ''u1'') ''2024-04-01T09:00:00.000Z'',
        done_task ''t2'' (Some ''u2'') ''2024-04-01T09:00:00.000Z'',
        done_task ''t3'' (Some ''u3'') ''2024-01-01T00:00:00.000Z''] = 2"
proof -
  have z: "zone_shift utc_zone sample_now = 0"
    by (simp add: zone_shift_def utc_zone_def)
  have n: "active_members utc_zone sample_instant sample_now [sample_entry]
       [done_task ''t1'' (Some ''u1'') ''2024-04-01T09:00:00.000Z'',
        done_task ''t2'' (Some ''u2'') ''2024-04-01T09:00:00.000Z'',
        done_task ''t3'' (Some ''u3'') ''2024-01-01T00:00:00.000Z''] = 2"
    by (simp add: active_members_def activeUserIds_def thirtyDaysAgo_def msPerDay_def
        utc_zone_def sample_instant_def sample_now_def sample_entry_def done_task_def
        new_Set_def set_add_def Let_def)
  show ?thesis
    using active_members_union [of utc_zone sample_instant sample_now "[sample_entry]"
        "[done_task ''t1'' (Some ''u1'') ''2024-04-01T09:00:00.000Z'',
          done_task ''t2'' (Some ''u2'') ''2024-04-01T09:00:00.000Z'',
          done_task ''t3'' (Some ''u3'') ''2024-01-01T00:00:00.000Z'']"] z n
    by simp
qed

section \<open>Properties of the optimistic comment submission\<close>

lemma handleSubmit_valid:
  assumes "textContent (newComment st) \<noteq> [] \<or> uploadedFiles st \<noteq> []"
  shows "handleSubmit addComment now nowIso currentUser st =
    (case addComment (newComment st)
            (if uploadedFiles st \<noteq> [] then Some (uploadedFiles st) else None) of
       None \<Rightarrow> submit_optimistic now nowIso currentUser st
     | Some result \<Rightarrow>
         submit_settle (optimisticComment now nowIso currentUser st) (newComment st)
           (uploadedFiles st) result (submit_optimistic now nowIso currentUser st))"
  using assms by (auto simp: handleSubmit_def Let_def)

lemma map_replace_fresh:
  "k \<notin> f ` set xs \<Longrightarrow> map (\<lambda>c. if f c = k then d else c) xs = xs"
  by (induction xs) auto

lemma filter_remove_fresh:
  "k \<notin> f ` set xs \<Longrightarrow> filter (\<lambda>c. f c \<noteq> k) xs = xs"
  by (induction xs) auto

text \<open>
  Where the submission does what is asked of it: the text passes the emptiness check,
  the call is answered, and no record of the collection carries the temporary identity.
  Then an answer with a record leaves the earlier collection followed by that record,
  and an answer with a non-empty error leaves the earlier collection, shows the error
  and puts the text and the attachments back into the form.
\<close>

lemma handleSubmit_answered:
  assumes "textContent (newComment st) \<noteq> [] \<or> uploadedFiles st \<noteq> []"
    and "addComment (newComment st)
           (if uploadedFiles st \<noteq> [] then Some (uploadedFiles st) else None) = Some result"
    and "''temp-'' @ string_of_int now \<notin> c_id ` set (comments st)"
  shows "\<not> truthy (r_error result) \<Longrightarrow> r_data result = Some d \<Longrightarrow>
           comments (handleSubmit addComment now nowIso currentUser st) = comments st @ [d]"
    and "truthy (r_error result) \<Longrightarrow>
           comments (handleSubmit addComment now nowIso currentUser st) = comments st \<and>
           error (handleSubmit addComment now nowIso currentUser st) = r_error result \<and>
           newComment (handleSubmit addComment now nowIso currentUser st) = newComment st \<and>
           uploadedFiles (handleSubmit addComment now nowIso currentUser st) = uploadedFiles st"
proof -
  let ?p = "optimisticComment now nowIso currentUser st"
  let ?st1 = "submit_optimistic now nowIso currentUser st"
  have id: "c_id ?p = ''temp-'' @ string_of_int now" by (simp add: optimisticComment_def)
  have c1: "comments ?st1 = comments st @ [?p]" by (simp add: submit_optimistic_def)
  have h: "handleSubmit addComment now nowIso currentUser st =
      submit_settle ?p (newComment st) (uploadedFiles st) result ?st1"
    using handleSubmit_valid [OF assms(1)] assms(2) by simp
  have m: "map (\<lambda>c. if c_id c = c_id ?p then d else c) (comments st) = comments st" for d
    using assms(3) id by (simp add: map_replace_fresh)
  have f: "filter (\<lambda>c. c_id c \<noteq> c_id ?p) (comments st) = comments st"
    using assms(3) id by (simp add: filter_remove_fresh)
  show "\<not> truthy (r_error result) \<Longrightarrow> r_data result = Some d \<Longrightarrow>
           comments (handleSubmit addComment now nowIso currentUser st) = comments st @ [d]"
    unfolding h by (simp add: submit_settle_def c1 m)
  show "truthy (r_error result) \<Longrightarrow>
           comments (handleSubmit addComment now nowIso currentUser st) = comments st \<and>
           error (handleSubmit addComment now nowIso currentUser st) = r_error result \<and>
           newComment (handleSubmit addComment now nowIso currentUser st) = newComment st \<and>
           uploadedFiles (handleSubmit addComment now nowIso currentUser st) = uploadedFiles st"
    unfolding h by (simp add: submit_settle_def c1 f)
qed

text \<open>
  C2. On a store failure the pending record is to be removed, the error shown and the
  form restored, and one attempt is to leave at most one authoritative record. The
  submission does not do so in three cases. The text \<open>hello\<close> is submitted at clock 5 to
  a collection of one comment.
  When the call of \<open>addComment\<close> is rejected, the pending record \<open>temp-5\<close> stays in the
  collection, no error is shown, the form stays empty and the component stays loading.
  The same holds when the answer carries an empty error message.
  When a record of the collection carries the identity \<open>temp-5\<close> already, the answer
  \<open>srv-1\<close> replaces that record as well as the pending one, and the attempt leaves two
  records \<open>srv-1\<close>; an error removes both.
\<close>

theorem handleSubmit_pending_record_remains:
  "map c_id (comments (handleSubmit rejected 5 ''2024-02-01'' None sample_comments))
     = [''srv-0'', ''temp-5''] \<and>
   error (handleSubmit rejected 5 ''2024-02-01'' None sample_comments) = None \<and>
   newComment (handleSubmit rejected 5 ''2024-02-01'' None sample_comments) = [] \<and>
   loading (handleSubmit rejected 5 ''2024-02-01'' None sample_comments) = True \<and>
   map c_id (comments (handleSubmit (answering sample_empty_error) 5 ''2024-02-01'' None
      sample_comments)) = [''srv-0'', ''temp-5''] \<and>
   error (handleSubmit (answering sample_empty_error) 5 ''2024-02-01'' None sample_comments)
     = None \<and>
   newComment (handleSubmit (answering sample_empty_error) 5 ''2024-02-01'' None
      sample_comments) = [] \<and>
   map c_id (comments sample_collision) = [''srv-0'', ''temp-5''] \<and>
   map c_id (comments (handleSubmit (answering sample_success) 5 ''2024-02-01'' None
      sample_collision)) = [''srv-0'', ''srv-1'', ''srv-1''] \<and>
   map c_id (comments (handleSubmit (answering sample_failure) 5 ''2024-02-01'' None
      sample_collision)) = [''srv-0'']"
  by (simp add: handleSubmit_def submit_optimistic_def submit_settle_def optimisticComment_def
      rejected_def answering_def sample_comments_def sample_collision_def sample_success_def
      sample_failure_def sample_empty_error_def textContent_def trim_def is_space_def
      string_of_int_def string_of_nat.simps Let_def)

text \<open>
  The same submission with the call answered and the temporary identity new to the
  collection: the record \<open>srv-1\<close> takes the pending record's place, and an error
  restores the collection and the form.
\<close>

lemma handleSubmit_sample:
  "map c_id (comments (handleSubmit (answering sample_success) 5 ''2024-02-01'' None
      sample_comments)) = [''srv-0'', ''srv-1''] \<and>
   comments (handleSubmit (answering sample_failure) 5 ''2024-02-01'' None sample_comments)
     = comments sample_comments \<and>
   error (handleSubmit (answering sample_failure) 5 ''2024-02-01'' None sample_comments)
     = Some ''Not authenticated'' \<and>
   newComment (handleSubmit (answering sample_failure) 5 ''2024-02-01'' None sample_comments)
     = ''hello''"
  by (simp add: handleSubmit_def submit_optimistic_def submit_settle_def optimisticComment_def
      answering_def sample_comments_def sample_success_def
      sample_failure_def textContent_def trim_def is_space_def
      string_of_int_def string_of_nat.simps Let_def)

end
